theory Spec2Isabelle
  imports Main "HOL-Library.Word" "HOL-Library.Char_ord" "HOL-Library.List_Lexorder"
begin

unbundle bit_operations_syntax

section \<open>Library functions used by \<open>pay/notify_url_data.go\<close>\<close>

text \<open>
  Go strings and byte slices are sequences of bytes; they are modelled as \<open>string\<close>
  (a list of 8-bit \<open>char\<close>). With \<open>Char_ord\<close> and \<open>List_Lexorder\<close> the order on
  \<open>string\<close> is the byte-wise lexicographic order that Go's \<open><\<close> on strings, and hence
  \<open>sort.Strings\<close>, uses.
\<close>

subsection \<open>\<open>crypto/md5\<close>: \<open>md5.Sum\<close> (RFC 1321)\<close>

text \<open>
  A 32-bit word is a natural number below \<open>2 ^ 32\<close>; additions wrap around with the
  \<open>mod\<close> written out. The bytes of the digest are natural numbers below 256.
\<close>

type_synonym uint32 = nat
type_synonym byte = nat

definition add32 :: "uint32 \<Rightarrow> uint32 \<Rightarrow> uint32" where
  "add32 x y = (x + y) mod 4294967296"

definition not32 :: "uint32 \<Rightarrow> uint32" where
  "not32 x = 4294967295 - x"

definition rotl32 :: "uint32 \<Rightarrow> nat \<Rightarrow> uint32" where
  "rotl32 x n = (x * 2 ^ n) mod 4294967296 + x div 2 ^ (32 - n)"

definition md5_K :: "uint32 list" where
  "md5_K =
    [0xd76aa478, 0xe8c7b756, 0x242070db, 0xc1bdceee, 0xf57c0faf, 0x4787c62a, 0xa8304613, 0xfd469501,
     0x698098d8, 0x8b44f7af, 0xffff5bb1, 0x895cd7be, 0x6b901122, 0xfd987193, 0xa679438e, 0x49b40821,
     0xf61e2562, 0xc040b340, 0x265e5a51, 0xe9b6c7aa, 0xd62f105d, 0x02441453, 0xd8a1e681, 0xe7d3fbc8,
     0x21e1cde6, 0xc33707d6, 0xf4d50d87, 0x455a14ed, 0xa9e3e905, 0xfcefa3f8, 0x676f02d9, 0x8d2a4c8a,
     0xfffa3942, 0x8771f681, 0x6d9d6122, 0xfde5380c, 0xa4beea44, 0x4bdecfa9, 0xf6bb4b60, 0xbebfbc70,
     0x289b7ec6, 0xeaa127fa, 0xd4ef3085, 0x04881d05, 0xd9d4d039, 0xe6db99e5, 0x1fa27cf8, 0xc4ac5665,
     0xf4292244, 0x432aff97, 0xab9423a7, 0xfc93a039, 0x655b59c3, 0x8f0ccc92, 0xffeff47d, 0x85845dd1,
     0x6fa87e4f, 0xfe2ce6e0, 0xa3014314, 0x4e0811a1, 0xf7537e82, 0xbd3af235, 0x2ad7d2bb, 0xeb86d391]"

definition md5_S :: "nat list" where
  "md5_S =
    [7, 12, 17, 22, 7, 12, 17, 22, 7, 12, 17, 22, 7, 12, 17, 22,
     5, 9, 14, 20, 5, 9, 14, 20, 5, 9, 14, 20, 5, 9, 14, 20,
     4, 11, 16, 23, 4, 11, 16, 23, 4, 11, 16, 23, 4, 11, 16, 23,
     6, 10, 15, 21, 6, 10, 15, 21, 6, 10, 15, 21, 6, 10, 15, 21]"

definition md5_F :: "nat \<Rightarrow> uint32 \<Rightarrow> uint32 \<Rightarrow> uint32 \<Rightarrow> uint32" where
  "md5_F i b c d =
     (if i < 16 then (b AND c) OR (not32 b AND d)
      else if i < 32 then (d AND b) OR (not32 d AND c)
      else if i < 48 then b XOR c XOR d
      else c XOR (b OR not32 d))"

definition md5_g :: "nat \<Rightarrow> nat" where
  "md5_g i =
     (if i < 16 then i
      else if i < 32 then (5 * i + 1) mod 16
      else if i < 48 then (3 * i + 5) mod 16
      else (7 * i) mod 16)"

text \<open>
  The 64 operations on one block: operation \<open>i\<close> takes its constant and its shift from
  the heads of the two tables and the message word \<open>M ! md5_g i\<close>.
\<close>

fun md5_rounds :: "uint32 list \<Rightarrow> nat \<Rightarrow> uint32 list \<Rightarrow> nat list
    \<Rightarrow> uint32 \<times> uint32 \<times> uint32 \<times> uint32 \<Rightarrow> uint32 \<times> uint32 \<times> uint32 \<times> uint32" where
  "md5_rounds M i (k # ks) (s # ss) (a, b, c, d) =
     md5_rounds M (i + 1) ks ss
       (d, add32 b (rotl32 (add32 (add32 (add32 a (md5_F i b c d)) k) (M ! md5_g i)) s), b, c)"
| "md5_rounds M i ks ss st = st"

text \<open>Little-endian decoding of a block into words, and encoding of a number into bytes.\<close>

fun le_words :: "byte list \<Rightarrow> uint32 list" where
  "le_words (b0 # b1 # b2 # b3 # bs) =
     (b0 + 256 * b1 + 65536 * b2 + 16777216 * b3) # le_words bs"
| "le_words bs = []"

fun le_bytes :: "nat \<Rightarrow> nat \<Rightarrow> byte list" where
  "le_bytes 0 x = []"
| "le_bytes (Suc n) x = (x mod 256) # le_bytes n (x div 256)"

definition md5_block :: "uint32 \<times> uint32 \<times> uint32 \<times> uint32 \<Rightarrow> byte list
    \<Rightarrow> uint32 \<times> uint32 \<times> uint32 \<times> uint32" where
  "md5_block st blk =
     (case st of (a0, b0, c0, d0) \<Rightarrow>
        (case md5_rounds (le_words blk) 0 md5_K md5_S st of (a, b, c, d) \<Rightarrow>
           (add32 a0 a, add32 b0 b, add32 c0 c, add32 d0 d)))"

function md5_blocks :: "uint32 \<times> uint32 \<times> uint32 \<times> uint32 \<Rightarrow> byte list
    \<Rightarrow> uint32 \<times> uint32 \<times> uint32 \<times> uint32" where
  "md5_blocks st p =
     (if length p < 64 then st else md5_blocks (md5_block st (take 64 p)) (drop 64 p))"
  by pat_completeness auto
termination
  by (relation "measure (\<lambda>(st, p). length p)") auto

declare md5_blocks.simps [simp del]

definition md5_pad :: "byte list \<Rightarrow> byte list" where
  "md5_pad msg =
     msg @ [128] @ replicate ((119 - length msg mod 64) mod 64) 0
         @ le_bytes 8 ((8 * length msg) mod 2 ^ 64)"

definition md5_digest :: "byte list \<Rightarrow> byte list" where
  "md5_digest msg =
     (case md5_blocks (0x67452301, 0xefcdab89, 0x98badcfe, 0x10325476) (md5_pad msg)
      of (a, b, c, d) \<Rightarrow> le_bytes 4 a @ le_bytes 4 b @ le_bytes 4 c @ le_bytes 4 d)"

definition md5_Sum :: "string \<Rightarrow> byte list" where
  "md5_Sum data = md5_digest (map of_char data)"

subsection \<open>\<open>encoding/hex\<close>, \<open>bytes.ToUpper\<close>, \<open>copy\<close>, \<open>subtle.ConstantTimeCompare\<close>\<close>

definition hextable :: string where
  "hextable = ''0123456789abcdef''"

definition hex_Encode :: "byte list \<Rightarrow> string" where
  "hex_Encode src = concat (map (\<lambda>v. [hextable ! (v div 16), hextable ! (v mod 16)]) src)"

text \<open>
  \<open>bytes.ToUpper\<close> on ASCII input maps \<open>a\<close>..\<open>z\<close> to \<open>A\<close>..\<open>Z\<close> and leaves every other
  byte alone. It is only applied to the output of \<open>hex.Encode\<close>, which is ASCII.
\<close>

definition toUpper_byte :: "char \<Rightarrow> char" where
  "toUpper_byte c =
     (case map_of (zip ''abcdefghijklmnopqrstuvwxyz'' ''ABCDEFGHIJKLMNOPQRSTUVWXYZ'') c of
        Some u \<Rightarrow> u
      | None \<Rightarrow> c)"

definition bytes_ToUpper :: "string \<Rightarrow> string" where
  "bytes_ToUpper s = map toUpper_byte s"

text \<open>The builtin \<open>copy(dst, src)\<close> overwrites the first \<open>min (len dst) (len src)\<close> bytes.\<close>

definition copy_bytes :: "string \<Rightarrow> string \<Rightarrow> string" where
  "copy_bytes dst src =
     take (min (length dst) (length src)) src @ drop (min (length dst) (length src)) dst"

text \<open>
  \<open>subtle.ConstantTimeCompare\<close> returns 1 if the two slices have equal contents and 0
  otherwise; its running time is not modelled.
\<close>

definition ConstantTimeCompare :: "string \<Rightarrow> string \<Rightarrow> int" where
  "ConstantTimeCompare x y = (if x = y then 1 else 0)"

subsection \<open>\<open>strconv.ParseInt(s, 10, 64)\<close>\<close>

text \<open>
  Go's \<open>int\<close> is taken to be 64 bits wide (as on amd64 and arm64), so that the
  conversion \<open>int(n)\<close> of an \<open>int64\<close> is the identity and \<open>+\<close> wraps around modulo
  \<open>2 ^ 64\<close>.
\<close>

type_synonym int64 = "64 word"

datatype strconv_err = ErrSyntax | ErrRange

text \<open>
  The digit loop of \<open>ParseUint\<close> for base 10 and 64 bits: \<open>1844674407370955162\<close> is
  the cutoff \<open>maxUint64 / 10 + 1\<close>, \<open>18446744073709551615\<close> is \<open>maxUint64\<close>.
\<close>

fun ParseUint_loop :: "string \<Rightarrow> nat \<Rightarrow> strconv_err + nat" where
  "ParseUint_loop [] n = Inr n"
| "ParseUint_loop (c # cs) n =
     (if CHR ''0'' \<le> c \<and> c \<le> CHR ''9'' then
        (if n \<ge> 1844674407370955162 then Inl ErrRange
         else if n * 10 + (of_char c - 48) > 18446744073709551615 then Inl ErrRange
         else ParseUint_loop cs (n * 10 + (of_char c - 48)))
      else Inl ErrSyntax)"

definition ParseUint :: "string \<Rightarrow> strconv_err + nat" where
  "ParseUint s = (if s = [] then Inl ErrSyntax else ParseUint_loop s 0)"

definition ParseInt :: "string \<Rightarrow> strconv_err + int64" where
  "ParseInt s =
     (case s of
        [] \<Rightarrow> Inl ErrSyntax
      | c # cs \<Rightarrow>
          (let neg = (c = CHR ''-'');
               s' = (if c = CHR ''+'' \<or> c = CHR ''-'' then cs else s)
           in case ParseUint s' of
                Inl e \<Rightarrow> Inl e
              | Inr un \<Rightarrow>
                  if \<not> neg \<and> un \<ge> 9223372036854775808 then Inl ErrRange
                  else if neg \<and> un > 9223372036854775808 then Inl ErrRange
                  else Inr (if neg then - of_nat un else of_nat un)))"

section \<open>The parameter set: \<open>url.Values\<close>\<close>

text \<open>
  \<open>url.Values\<close> is \<open>map[string][]string\<close>. A non-nil map is modelled by the list of its
  entries, in the order in which \<open>range\<close> happens to enumerate them; the keys of a Go map
  are distinct. The nil map is \<open>None\<close>.
\<close>

type_synonym Values = "(string \<times> string list) list"

definition wf_Values :: "Values \<Rightarrow> bool" where
  "wf_Values values = distinct (map fst values)"

text \<open>\<open>values[k]\<close>: the slice stored under \<open>k\<close>, of length 0 when the key is absent.\<close>

definition index :: "Values \<Rightarrow> string \<Rightarrow> string list" where
  "index values k = (case map_of values k of None \<Rightarrow> [] | Some vs \<Rightarrow> vs)"

text \<open>\<open>values.Del(k)\<close>, that is \<open>delete(values, k)\<close>.\<close>

definition Del :: "Values \<Rightarrow> string \<Rightarrow> Values" where
  "Del values k = filter (\<lambda>(k', vs). k' \<noteq> k) values"

text \<open>
  The two conditions under which the source reads \<open>xs[0]\<close>:
  \<open>len(xs) > 0 && len(xs[0]) > 0\<close> and \<open>len(xs) > 0\<close>.
\<close>

definition first_nonempty :: "string list \<Rightarrow> string option" where
  "first_nonempty xs = (case xs of [] \<Rightarrow> None | v # _ \<Rightarrow> if length v > 0 then Some v else None)"

definition first :: "string list \<Rightarrow> string option" where
  "first xs = (case xs of [] \<Rightarrow> None | v # _ \<Rightarrow> Some v)"

section \<open>\<open>NotifyURLData\<close> and \<open>CheckAndInit\<close>\<close>

record 't NotifyURLData =
  ServiceVersion :: string
  Charset :: string
  Signature :: string
  SignMethod :: string
  SignKeyIndex :: int64
  NotifyId :: string
  TradeMode :: int64
  TradeState :: int64
  PayInfo :: string
  BankBillNo :: string
  TransactionId :: string
  TimeEnd :: 't
  BankType :: string
  PartnerId :: string
  OutTradeNo :: string
  Attach :: string
  TotalFee :: int64
  Discount :: int64
  TransportFee :: int64
  ProductFee :: int64
  FeeType :: int64
  BuyerAlias :: string

text \<open>
  The errors \<open>CheckAndInit\<close> returns:
  \<^item> \<open>InvalidInput\<close> is \<open>errors.New("values == nil")\<close>;
  \<^item> \<open>MissingSignature\<close> is \<open>errors.New("sign is empty")\<close>;
  \<^item> \<open>SignatureMismatch\<close> is the error of line 105;
  \<^item> \<open>MissingField k\<close> is \<open>errors.New("k is empty")\<close>;
  \<^item> \<open>NumError s e\<close> is the \<open>*strconv.NumError\<close> of \<open>ParseInt\<close> on the string \<open>s\<close>;
  \<^item> \<open>TimeError e\<close> is the error \<open>e\<close> returned by \<open>ParseTime\<close>;
  \<^item> \<open>InconsistentFees\<close> is \<open>errors.New("transport_fee+product_fee != total_fee")\<close>.
\<close>

datatype 'e error =
    InvalidInput
  | MissingSignature
  | SignatureMismatch
  | MissingField string
  | NumError string strconv_err
  | TimeError 'e
  | InconsistentFees

text \<open>Modelled from the spec: the constants \<open>NOTIFY_URL_DATA_CHARSET_GBK\<close> and
  \<open>NOTIFY_URL_DATA_SIGN_METHOD_MD5\<close> are declared outside \<open>notify_url_data.go\<close>; the
  specification gives the default charset as \<open>GBK\<close> and the default signing method as
  \<open>MD5\<close>.\<close>

definition NOTIFY_URL_DATA_CHARSET_GBK :: string where
  "NOTIFY_URL_DATA_CHARSET_GBK = ''GBK''"

definition NOTIFY_URL_DATA_SIGN_METHOD_MD5 :: string where
  "NOTIFY_URL_DATA_SIGN_METHOD_MD5 = ''MD5''"

subsection \<open>Lines 73 to 102: the string that is hashed and its digest\<close>

text \<open>The inner loop of lines 83 to 90 for one key, and the outer loop of lines 81 to 91.\<close>

definition write_entry :: "string \<Rightarrow> string \<Rightarrow> string \<Rightarrow> string" where
  "write_entry k v buf = (if length buf > 0 then buf @ ''&'' else buf) @ k @ ''='' @ v"

definition write_key :: "Values \<Rightarrow> string \<Rightarrow> string \<Rightarrow> string" where
  "write_key values k buf = fold (write_entry k) (index values k) buf"

definition string1 :: "Values \<Rightarrow> string \<Rightarrow> string" where
  "string1 values paySignKey =
     (let keys = sort (map fst values);
          buf = fold (write_key values) keys [];
          buf = (if length buf > 0 then buf @ ''&'' else buf)
      in buf @ ''key='' @ paySignKey)"

definition hashSumHexBytes :: "Values \<Rightarrow> string \<Rightarrow> string" where
  "hashSumHexBytes values paySignKey =
     (let hashSumArray = md5_Sum (string1 values paySignKey);
          hashSumHexBytes = hex_Encode hashSumArray
      in copy_bytes hashSumHexBytes (bytes_ToUpper hashSumHexBytes))"

subsection \<open>Lines 110 to 265: one definition for each block\<close>

text \<open>
  Each block either assigns to the record and goes on (\<open>Inr\<close>) or returns an error
  (\<open>Inl\<close>); no block assigns before it returns an error. \<open>ParseTime\<close> is a function of
  the package that is declared in another file: it is the parameter \<open>ParseTime\<close>.
\<close>

type_synonym ('e, 't) block = "'t NotifyURLData \<Rightarrow> 'e error + 't NotifyURLData"

definition init_ServiceVersion :: "Values \<Rightarrow> ('e, 't) block" where
  "init_ServiceVersion values data =
     (case first_nonempty (index values ''service_version'') of
        Some v \<Rightarrow> Inr (data\<lparr>ServiceVersion := v\<rparr>)
      | None \<Rightarrow> Inr (data\<lparr>ServiceVersion := ''1.0''\<rparr>))"

definition init_Charset :: "Values \<Rightarrow> ('e, 't) block" where
  "init_Charset values data =
     (case first_nonempty (index values ''input_charset'') of
        Some v \<Rightarrow> Inr (data\<lparr>Charset := v\<rparr>)
      | None \<Rightarrow> Inr (data\<lparr>Charset := NOTIFY_URL_DATA_CHARSET_GBK\<rparr>))"

definition init_Signature :: "string \<Rightarrow> ('e, 't) block" where
  "init_Signature signature data = Inr (data\<lparr>Signature := signature\<rparr>)"

definition init_SignMethod :: "Values \<Rightarrow> ('e, 't) block" where
  "init_SignMethod values data =
     (case first_nonempty (index values ''sign_type'') of
        Some v \<Rightarrow> Inr (data\<lparr>SignMethod := v\<rparr>)
      | None \<Rightarrow> Inr (data\<lparr>SignMethod := NOTIFY_URL_DATA_SIGN_METHOD_MD5\<rparr>))"

definition init_SignKeyIndex :: "Values \<Rightarrow> ('e, 't) block" where
  "init_SignKeyIndex values data =
     (case first_nonempty (index values ''sign_key_index'') of
        Some v \<Rightarrow>
          (case ParseInt v of
             Inl e \<Rightarrow> Inl (NumError v e)
           | Inr n \<Rightarrow> Inr (data\<lparr>SignKeyIndex := n\<rparr>))
      | None \<Rightarrow> Inr (data\<lparr>SignKeyIndex := 1\<rparr>))"

definition init_NotifyId :: "Values \<Rightarrow> ('e, 't) block" where
  "init_NotifyId values data =
     (case first_nonempty (index values ''notify_id'') of
        Some v \<Rightarrow> Inr (data\<lparr>NotifyId := v\<rparr>)
      | None \<Rightarrow> Inl (MissingField ''notify_id''))"

definition init_TradeMode :: "Values \<Rightarrow> ('e, 't) block" where
  "init_TradeMode values data =
     (case first_nonempty (index values ''trade_mode'') of
        Some v \<Rightarrow>
          (case ParseInt v of
             Inl e \<Rightarrow> Inl (NumError v e)
           | Inr n \<Rightarrow> Inr (data\<lparr>TradeMode := n\<rparr>))
      | None \<Rightarrow> Inl (MissingField ''trade_mode''))"

definition init_TradeState :: "Values \<Rightarrow> ('e, 't) block" where
  "init_TradeState values data =
     (case first_nonempty (index values ''trade_state'') of
        Some v \<Rightarrow>
          (case ParseInt v of
             Inl e \<Rightarrow> Inl (NumError v e)
           | Inr n \<Rightarrow> Inr (data\<lparr>TradeState := n\<rparr>))
      | None \<Rightarrow> Inl (MissingField ''trade_state''))"

definition init_PayInfo :: "Values \<Rightarrow> ('e, 't) block" where
  "init_PayInfo values data =
     (case first (index values ''pay_info'') of
        Some v \<Rightarrow> Inr (data\<lparr>PayInfo := v\<rparr>)
      | None \<Rightarrow> Inr data)"

definition init_BankBillNo :: "Values \<Rightarrow> ('e, 't) block" where
  "init_BankBillNo values data =
     (case first (index values ''bank_billno'') of
        Some v \<Rightarrow> Inr (data\<lparr>BankBillNo := v\<rparr>)
      | None \<Rightarrow> Inr data)"

definition init_TransactionId :: "Values \<Rightarrow> ('e, 't) block" where
  "init_TransactionId values data =
     (case first_nonempty (index values ''transaction_id'') of
        Some v \<Rightarrow> Inr (data\<lparr>TransactionId := v\<rparr>)
      | None \<Rightarrow> Inl (MissingField ''transaction_id''))"

definition init_TimeEnd :: "(string \<Rightarrow> 'e + 't) \<Rightarrow> Values \<Rightarrow> ('e, 't) block" where
  "init_TimeEnd ParseTime values data =
     (case first_nonempty (index values ''time_end'') of
        Some v \<Rightarrow>
          (case ParseTime v of
             Inl e \<Rightarrow> Inl (TimeError e)
           | Inr t \<Rightarrow> Inr (data\<lparr>TimeEnd := t\<rparr>))
      | None \<Rightarrow> Inl (MissingField ''time_end''))"

definition init_BankType :: "Values \<Rightarrow> ('e, 't) block" where
  "init_BankType values data =
     (case first_nonempty (index values ''bank_type'') of
        Some v \<Rightarrow> Inr (data\<lparr>BankType := v\<rparr>)
      | None \<Rightarrow> Inl (MissingField ''bank_type''))"

definition init_PartnerId :: "Values \<Rightarrow> ('e, 't) block" where
  "init_PartnerId values data =
     (case first_nonempty (index values ''partner'') of
        Some v \<Rightarrow> Inr (data\<lparr>PartnerId := v\<rparr>)
      | None \<Rightarrow> Inl (MissingField ''partner''))"

definition init_OutTradeNo :: "Values \<Rightarrow> ('e, 't) block" where
  "init_OutTradeNo values data =
     (case first_nonempty (index values ''out_trade_no'') of
        Some v \<Rightarrow> Inr (data\<lparr>OutTradeNo := v\<rparr>)
      | None \<Rightarrow> Inl (MissingField ''out_trade_no''))"

definition init_Attach :: "Values \<Rightarrow> ('e, 't) block" where
  "init_Attach values data =
     (case first (index values ''attach'') of
        Some v \<Rightarrow> Inr (data\<lparr>Attach := v\<rparr>)
      | None \<Rightarrow> Inr data)"

definition init_TotalFee :: "Values \<Rightarrow> ('e, 't) block" where
  "init_TotalFee values data =
     (case first_nonempty (index values ''total_fee'') of
        Some v \<Rightarrow>
          (case ParseInt v of
             Inl e \<Rightarrow> Inl (NumError v e)
           | Inr n \<Rightarrow> Inr (data\<lparr>TotalFee := n\<rparr>))
      | None \<Rightarrow> Inl (MissingField ''total_fee''))"

definition init_Discount :: "Values \<Rightarrow> ('e, 't) block" where
  "init_Discount values data =
     (case first_nonempty (index values ''discount'') of
        Some v \<Rightarrow>
          (case ParseInt v of
             Inl e \<Rightarrow> Inl (NumError v e)
           | Inr n \<Rightarrow> Inr (data\<lparr>Discount := n\<rparr>))
      | None \<Rightarrow> Inr data)"

definition init_TransportFee :: "Values \<Rightarrow> ('e, 't) block" where
  "init_TransportFee values data =
     (case first_nonempty (index values ''transport_fee'') of
        Some v \<Rightarrow>
          (case ParseInt v of
             Inl e \<Rightarrow> Inl (NumError v e)
           | Inr n \<Rightarrow> Inr (data\<lparr>TransportFee := n\<rparr>))
      | None \<Rightarrow> Inr data)"

definition init_ProductFee :: "Values \<Rightarrow> ('e, 't) block" where
  "init_ProductFee values data =
     (case first_nonempty (index values ''product_fee'') of
        Some v \<Rightarrow>
          (case ParseInt v of
             Inl e \<Rightarrow> Inl (NumError v e)
           | Inr n \<Rightarrow> Inr (data\<lparr>ProductFee := n\<rparr>))
      | None \<Rightarrow> Inr data)"

text \<open>Lines 247 to 251; the addition is that of Go's \<open>int\<close> and wraps around.\<close>

definition check_fees :: "('e, 't) block" where
  "check_fees data =
     (if TransportFee data \<noteq> 0 \<or> ProductFee data \<noteq> 0 then
        (if TransportFee data + ProductFee data \<noteq> TotalFee data then Inl InconsistentFees
         else Inr data)
      else Inr data)"

definition init_FeeType :: "Values \<Rightarrow> ('e, 't) block" where
  "init_FeeType values data =
     (case first_nonempty (index values ''fee_type'') of
        Some v \<Rightarrow>
          (case ParseInt v of
             Inl e \<Rightarrow> Inl (NumError v e)
           | Inr n \<Rightarrow> Inr (data\<lparr>FeeType := n\<rparr>))
      | None \<Rightarrow> Inl (MissingField ''fee_type''))"

definition init_BuyerAlias :: "Values \<Rightarrow> ('e, 't) block" where
  "init_BuyerAlias values data =
     (case first (index values ''buyer_alias'') of
        Some v \<Rightarrow> Inr (data\<lparr>BuyerAlias := v\<rparr>)
      | None \<Rightarrow> Inr data)"

text \<open>
  The blocks run in the order of the source; the first error ends the run, and the record
  keeps what the blocks before it have assigned.
\<close>

fun run_blocks :: "('e, 't) block list \<Rightarrow> 't NotifyURLData
    \<Rightarrow> 't NotifyURLData \<times> 'e error option" where
  "run_blocks [] data = (data, None)"
| "run_blocks (b # bs) data =
     (case b data of
        Inl e \<Rightarrow> (data, Some e)
      | Inr data' \<Rightarrow> run_blocks bs data')"

definition blocks_before_fee_check :: "(string \<Rightarrow> 'e + 't) \<Rightarrow> Values \<Rightarrow> string
    \<Rightarrow> ('e, 't) block list" where
  "blocks_before_fee_check ParseTime values signature =
     [init_ServiceVersion values, init_Charset values, init_Signature signature,
      init_SignMethod values, init_SignKeyIndex values, init_NotifyId values,
      init_TradeMode values, init_TradeState values, init_PayInfo values,
      init_BankBillNo values, init_TransactionId values, init_TimeEnd ParseTime values,
      init_BankType values, init_PartnerId values, init_OutTradeNo values,
      init_Attach values, init_TotalFee values, init_Discount values,
      init_TransportFee values, init_ProductFee values]"

definition blocks_from_fee_check :: "Values \<Rightarrow> ('e, 't) block list" where
  "blocks_from_fee_check values = [check_fees, init_FeeType values, init_BuyerAlias values]"

text \<open>
  \<open>CheckAndInit\<close> mutates the record behind its receiver and the map it is given, and
  returns an error or nil: the model returns the record and the map as they are when the
  call returns, and the error (\<open>None\<close> for nil).
\<close>

definition CheckAndInit :: "(string \<Rightarrow> 'e + 't) \<Rightarrow> 't NotifyURLData \<Rightarrow> Values option \<Rightarrow> string
    \<Rightarrow> 't NotifyURLData \<times> Values option \<times> 'e error option" where
  "CheckAndInit ParseTime data values paySignKey =
     (case values of
        None \<Rightarrow> (data, None, Some InvalidInput)
      | Some vals \<Rightarrow>
          (case first_nonempty (index vals ''sign'') of
             None \<Rightarrow> (data, Some vals, Some MissingSignature)
           | Some signature \<Rightarrow>
               (let vals' = Del vals ''sign'' in
                if ConstantTimeCompare signature (hashSumHexBytes vals' paySignKey) \<noteq> 1
                then (data, Some vals', Some SignatureMismatch)
                else
                  (case run_blocks
                          (blocks_before_fee_check ParseTime vals' signature
                             @ blocks_from_fee_check vals') data of
                     (data', err) \<Rightarrow> (data', Some vals', err)))))"

section \<open>The canonical string as the specification words it\<close>

text \<open>
  The specification's signer: the keys other than \<open>sign\<close> in ascending order, for each
  key its values in arrival order, each as \<open>key=value\<close>, the entries joined by \<open>&\<close>,
  followed by the trailing entry \<open>&key=<secretKey>\<close>.
\<close>

fun join :: "string \<Rightarrow> string list \<Rightarrow> string" where
  "join sep [] = []"
| "join sep [x] = x"
| "join sep (x # y # ys) = x @ sep @ join sep (y # ys)"

definition spec_entries :: "Values \<Rightarrow> string list" where
  "spec_entries params =
     concat (map (\<lambda>k. map (\<lambda>v. k @ ''='' @ v) (index params k))
                 (sorted_list_of_set (fst ` set params - {''sign''})))"

definition spec_string :: "Values \<Rightarrow> string \<Rightarrow> string" where
  "spec_string params secretKey = join ''&'' (spec_entries params) @ ''&key='' @ secretKey"

text \<open>The buffer of lines 79 to 91 after a list of entries has been written to it.\<close>

definition append_entries :: "string \<Rightarrow> string list \<Rightarrow> string" where
  "append_entries buf es = fold (\<lambda>e buf. (if length buf > 0 then buf @ ''&'' else buf) @ e) es buf"

section \<open>Inputs for the examples\<close>

text \<open>
  The zero value of the struct, with \<open>t0\<close> for the zero \<open>time.Time\<close>: the record of a
  caller who decodes into a fresh \<open>NotifyURLData\<close>.
\<close>

definition zero_NotifyURLData :: "'t \<Rightarrow> 't NotifyURLData" where
  "zero_NotifyURLData t0 =
     \<lparr>ServiceVersion = [], Charset = [], Signature = [], SignMethod = [], SignKeyIndex = 0,
      NotifyId = [], TradeMode = 0, TradeState = 0, PayInfo = [], BankBillNo = [],
      TransactionId = [], TimeEnd = t0, BankType = [], PartnerId = [], OutTradeNo = [],
      Attach = [], TotalFee = 0, Discount = 0, TransportFee = 0, ProductFee = 0, FeeType = 0,
      BuyerAlias = []\<rparr>"

text \<open>Modelled from the spec: \<open>ParseTime\<close> is declared outside \<open>notify_url_data.go\<close>, and
  the specification treats it as an opaque function from a string to a timestamp or an
  error. The theorems hold for every such function; the examples use this one, which
  accepts the strings of 14 bytes and returns them unchanged.\<close>

definition ParseTime_ex :: "string \<Rightarrow> string + string" where
  "ParseTime_ex v = (if length v = 14 then Inr v else Inl ''cannot parse'')"

text \<open>
  The parameters of the specification's end-to-end example, without \<open>sign\<close>; the same
  with the three fees given; and the same without \<open>fee_type\<close>.
\<close>

definition example_fields :: Values where
  "example_fields =
     [(''out_trade_no'', [''T1'']), (''partner'', [''P1'']), (''bank_type'', [''WX'']),
      (''transaction_id'', [''1234567890200901010000000001'']),
      (''time_end'', [''20090101000000'']), (''notify_id'', [''N1'']),
      (''trade_mode'', [''1'']), (''trade_state'', [''0'']), (''total_fee'', [''100'']),
      (''fee_type'', [''1''])]"

definition example_with_fees :: "string \<Rightarrow> string \<Rightarrow> string \<Rightarrow> Values" where
  "example_with_fees total_fee transport_fee product_fee =
     [(''out_trade_no'', [''T1'']), (''partner'', [''P1'']), (''bank_type'', [''WX'']),
      (''transaction_id'', [''1234567890200901010000000001'']),
      (''time_end'', [''20090101000000'']), (''notify_id'', [''N1'']),
      (''trade_mode'', [''1'']), (''trade_state'', [''0'']), (''total_fee'', [total_fee]),
      (''fee_type'', [''1'']), (''transport_fee'', [transport_fee]),
      (''product_fee'', [product_fee])]"

definition example_without_fee_type :: Values where
  "example_without_fee_type =
     [(''out_trade_no'', [''T1'']), (''partner'', [''P1'']), (''bank_type'', [''WX'']),
      (''transaction_id'', [''1234567890200901010000000001'']),
      (''time_end'', [''20090101000000'']), (''notify_id'', [''N1'']),
      (''trade_mode'', [''1'']), (''trade_state'', [''0'']), (''total_fee'', [''100''])]"

section \<open>The string that is hashed\<close>

lemma append_entries_simps [simp]:
  "append_entries buf [] = buf"
  "append_entries buf (e # es) = append_entries ((if buf = [] then buf else buf @ ''&'') @ e) es"
  by (simp_all add: append_entries_def)

lemma append_entries_append:
  "append_entries buf (xs @ ys) = append_entries (append_entries buf xs) ys"
  by (simp add: append_entries_def)

lemma fold_write_entry:
  "fold (write_entry k) vs buf = append_entries buf (map (\<lambda>v. k @ ''='' @ v) vs)"
  by (induction vs arbitrary: buf) (simp_all add: write_entry_def)

lemma write_key_entries:
  "write_key vals k buf = append_entries buf (map (\<lambda>v. k @ ''='' @ v) (index vals k))"
  unfolding write_key_def by (rule fold_write_entry)

lemma fold_write_key_entries:
  "fold (write_key values) keys buf =
     append_entries buf (concat (map (\<lambda>k. map (\<lambda>v. k @ ''='' @ v) (index values k)) keys))"
  by (induction keys arbitrary: buf) (simp_all add: write_key_entries append_entries_append)

lemma join_eq_Nil: "\<forall>e\<in>set es. e \<noteq> [] \<Longrightarrow> join sep es = [] \<longleftrightarrow> es = []"
  by (induction sep es rule: join.induct) auto

lemma append_entries_nonempty:
  "buf \<noteq> [] \<Longrightarrow> append_entries buf es = buf @ concat (map (\<lambda>e. ''&'' @ e) es)"
  by (induction es arbitrary: buf) simp_all

lemma join_Cons: "join sep (e # es) = e @ concat (map (\<lambda>e. sep @ e) es)"
  by (induction es arbitrary: e) simp_all

lemma append_entries_join:
  assumes "\<forall>e\<in>set es. e \<noteq> []"
  shows "append_entries buf es =
       (if es = [] then buf else if buf = [] then join ''&'' es else buf @ ''&'' @ join ''&'' es)"
proof (cases es)
  case Nil
  then show ?thesis by simp
next
  case (Cons e es')
  with assms have e: "e \<noteq> []" by simp
  show ?thesis
  proof (cases "buf = []")
    case True
    with e Cons show ?thesis
      by (simp add: append_entries_nonempty join_Cons)
  next
    case False
    with Cons show ?thesis
      by (simp add: append_entries_nonempty join_Cons)
  qed
qed

lemma entries_nonempty:
  "\<forall>e\<in>set (concat (map (\<lambda>k. map (\<lambda>v. k @ ''='' @ v) (f k)) keys)). e \<noteq> []"
  by auto

lemma string1_join:
  "string1 vals key =
     (let es = concat (map (\<lambda>k. map (\<lambda>v. k @ ''='' @ v) (index vals k)) (sort (map fst vals)))
      in if es = [] then ''key='' @ key else join ''&'' es @ ''&key='' @ key)"
proof -
  let ?es = "concat (map (\<lambda>k. map (\<lambda>v. k @ ''='' @ v) (index vals k)) (sort (map fst vals)))"
  have ne: "\<forall>e\<in>set ?es. e \<noteq> []" by (rule entries_nonempty)
  have buf: "fold (write_key vals) (sort (map fst vals)) [] = join ''&'' ?es"
  proof (cases "?es = []")
    case True
    show ?thesis unfolding fold_write_key_entries True by simp
  next
    case False
    show ?thesis unfolding fold_write_key_entries append_entries_join [OF ne] if_not_P [OF False]
      by simp
  qed
  have "join ''&'' ?es = [] \<longleftrightarrow> ?es = []" by (rule join_eq_Nil [OF ne])
  then show ?thesis
    unfolding string1_def Let_def buf by simp
qed

lemma index_Del: "k \<noteq> k' \<Longrightarrow> index (Del vals k') k = index vals k"
  unfolding index_def Del_def
  by (induction vals) auto

lemma index_Del_same [simp]: "index (Del vals k) k = []"
  unfolding index_def Del_def
  by (induction vals) auto

lemma fst_set_Del: "fst ` set (Del values k) = fst ` set values - {k}"
  unfolding Del_def by force

lemma distinct_Del: "distinct (map fst values) \<Longrightarrow> distinct (map fst (Del values k))"
  unfolding Del_def by (simp add: distinct_map_filter)

lemma sort_keys: "distinct (map fst values) \<Longrightarrow> sort (map fst values) = sorted_list_of_set (fst ` set values)"
  by (metis distinct_remdups_id list.set_map sorted_list_of_set_sort_remdups)

lemma entries_Del:
  "distinct (map fst params) \<Longrightarrow>
   concat (map (\<lambda>k. map (\<lambda>v. k @ ''='' @ v) (index (Del params ''sign'') k)) (sort (map fst (Del params ''sign''))))
     = spec_entries params"
proof -
  assume d: "distinct (map fst params)"
  let ?ks = "sorted_list_of_set (fst ` set params - {''sign''})"
  have ks: "sort (map fst (Del params ''sign'')) = ?ks"
    using sort_keys [OF distinct_Del [OF d]] by (simp add: fst_set_Del)
  have "\<forall>k\<in>set ?ks. k \<noteq> ''sign''" by simp
  then have eq: "map (\<lambda>k. map (\<lambda>v. k @ ''='' @ v) (index (Del params ''sign'') k)) ?ks
     = map (\<lambda>k. map (\<lambda>v. k @ ''='' @ v) (index params k)) ?ks"
    by (intro map_cong) (auto simp: index_Del)
  show ?thesis unfolding ks spec_entries_def eq by (rule refl)
qed

lemma first_nonempty_Some: "first_nonempty xs = Some s \<longleftrightarrow> (\<exists>rest. xs = s # rest) \<and> s \<noteq> []"
  by (auto simp: first_nonempty_def split: list.splits)

lemma first_nonempty_None: "first_nonempty xs = None \<longleftrightarrow> xs = [] \<or> hd xs = []"
  by (auto simp: first_nonempty_def split: list.splits)

lemma length_le_bytes: "length (le_bytes n x) = n"
  by (induction n arbitrary: x) simp_all

lemma length_md5_digest: "length (md5_digest msg) = 16"
  by (simp add: md5_digest_def length_le_bytes split: prod.splits)

lemma length_hex_Encode: "length (hex_Encode bs) = 2 * length bs"
  by (induction bs) (simp_all add: hex_Encode_def)

lemma copy_bytes_same_length: "length dst = length src \<Longrightarrow> copy_bytes dst src = src"
  by (simp add: copy_bytes_def)

lemma hashSumHexBytes_eq:
  "hashSumHexBytes vals key = bytes_ToUpper (hex_Encode (md5_Sum (string1 vals key)))"
  by (simp add: hashSumHexBytes_def Let_def copy_bytes_same_length bytes_ToUpper_def)

lemma length_hashSumHexBytes: "length (hashSumHexBytes vals key) = 32"
  by (simp add: hashSumHexBytes_eq bytes_ToUpper_def length_hex_Encode md5_Sum_def length_md5_digest)

lemma map_of_Del: "map_of (Del vals k) = (map_of vals)(k := None)"
  unfolding Del_def by (induction vals) (auto simp: fun_eq_iff)

lemma Del_only_sign: "\<forall>k\<in>fst ` set params. k = ''sign'' \<Longrightarrow> Del params ''sign'' = []"
  unfolding Del_def by (induction params) auto

lemma string1_cong:
  assumes "distinct (map fst m1)" "distinct (map fst m2)" "set m1 = set m2"
  shows "string1 m1 key = string1 m2 key"
proof -
  have "map_of m1 = map_of m2" using assms by (simp add: map_of_inject_set)
  then have idx: "index m1 = index m2" by (simp add: index_def fun_eq_iff)
  have "sort (map fst m1) = sort (map fst m2)"
    using assms by (simp add: sort_keys)
  then show ?thesis by (simp add: string1_def idx write_key_def [abs_def])
qed

lemma string1_spec:
  assumes "wf_Values params"
  shows "string1 (Del params ''sign'') key =
     (if spec_entries params = [] then ''key='' @ key
      else join ''&'' (spec_entries params) @ ''&key='' @ key)"
  unfolding string1_join Let_def entries_Del [OF assms [unfolded wf_Values_def]] by (rule refl)

section \<open>Running the blocks\<close>

lemmas block_defs = init_ServiceVersion_def init_Charset_def init_Signature_def init_SignMethod_def
  init_SignKeyIndex_def init_NotifyId_def init_TradeMode_def init_TradeState_def
  init_PayInfo_def init_BankBillNo_def init_TransactionId_def init_TimeEnd_def
  init_BankType_def init_PartnerId_def init_OutTradeNo_def init_Attach_def
  init_TotalFee_def init_Discount_def init_TransportFee_def init_ProductFee_def
  check_fees_def init_FeeType_def init_BuyerAlias_def

lemma run_blocks_append:
  "run_blocks (xs @ ys) d =
     (case run_blocks xs d of (d', None) \<Rightarrow> run_blocks ys d' | (d', Some e) \<Rightarrow> (d', Some e))"
  by (induction xs arbitrary: d) (auto split: sum.splits)

lemma run_blocks_error_from:
  "run_blocks bs d = (d', Some e) \<Longrightarrow> \<exists>b\<in>set bs. \<exists>d0. b d0 = Inl e"
  by (induction bs arbitrary: d) (auto split: sum.splits)

lemma run_blocks_failing_block:
  "\<exists>n. n \<le> length bs
      \<and> run_blocks (take n bs) d = (fst (run_blocks bs d), None)
      \<and> (case snd (run_blocks bs d) of
            None \<Rightarrow> n = length bs
          | Some e \<Rightarrow> n < length bs \<and> (bs ! n) (fst (run_blocks bs d)) = Inl e)"
proof (induction bs arbitrary: d)
  case Nil
  then show ?case by simp
next
  case (Cons b bs)
  show ?case
  proof (cases "b d")
    case (Inl e)
    then have "0 \<le> length (b # bs)
      \<and> run_blocks (take 0 (b # bs)) d = (fst (run_blocks (b # bs) d), None)
      \<and> (case snd (run_blocks (b # bs) d) of
            None \<Rightarrow> 0 = length (b # bs)
          | Some e \<Rightarrow> 0 < length (b # bs) \<and> ((b # bs) ! 0) (fst (run_blocks (b # bs) d)) = Inl e)"
      by simp
    then show ?thesis by blast
  next
    case (Inr d1)
    from Cons.IH [of d1] obtain n where n: "n \<le> length bs"
      "run_blocks (take n bs) d1 = (fst (run_blocks bs d1), None)"
      "case snd (run_blocks bs d1) of
            None \<Rightarrow> n = length bs
          | Some e \<Rightarrow> n < length bs \<and> (bs ! n) (fst (run_blocks bs d1)) = Inl e"
      by blast
    with Inr have "Suc n \<le> length (b # bs)
      \<and> run_blocks (take (Suc n) (b # bs)) d = (fst (run_blocks (b # bs) d), None)
      \<and> (case snd (run_blocks (b # bs) d) of
            None \<Rightarrow> Suc n = length (b # bs)
          | Some e \<Rightarrow> Suc n < length (b # bs)
              \<and> ((b # bs) ! Suc n) (fst (run_blocks (b # bs) d)) = Inl e)"
      by (simp split: option.splits)
    then show ?thesis by blast
  qed
qed

lemma run_blocks_preserves:
  assumes "\<And>b d0 d1. b \<in> set bs \<Longrightarrow> b d0 = Inr d1 \<Longrightarrow> f d1 = f d0"
  shows "f (fst (run_blocks bs d)) = f d"
  using assms
proof (induction bs arbitrary: d)
  case Nil
  then show ?case by simp
next
  case (Cons b bs)
  show ?case
  proof (cases "b d")
    case (Inl e)
    then show ?thesis by simp
  next
    case (Inr d1)
    have "f (fst (run_blocks bs d1)) = f d1"
    proof (rule Cons.IH)
      fix b' d0 d1'
      assume "b' \<in> set bs" and "b' d0 = Inr d1'"
      then show "f d1' = f d0" using Cons.prems [of b' d0 d1'] by simp
    qed
    moreover have "f d1 = f d" using Cons.prems [of b d d1] Inr by simp
    ultimately show ?thesis using Inr by simp
  qed
qed

lemma block_error_kinds:
  assumes "b \<in> set (blocks_before_fee_check ParseTime vals s @ blocks_from_fee_check vals)"
    and "b d0 = Inl e"
  shows "e \<noteq> InvalidInput \<and> e \<noteq> MissingSignature \<and> e \<noteq> SignatureMismatch"
  using assms
  by (auto simp: blocks_before_fee_check_def blocks_from_fee_check_def block_defs
      split: option.splits sum.splits if_splits)

lemma CheckAndInit_signed:
  assumes "index params ''sign'' = s # rest" and "s \<noteq> []"
    and "s = hashSumHexBytes (Del params ''sign'') key"
  shows "CheckAndInit ParseTime d (Some params) key =
     (case run_blocks (blocks_before_fee_check ParseTime (Del params ''sign'') s
                         @ blocks_from_fee_check (Del params ''sign'')) d of
        (d', err) \<Rightarrow> (d', Some (Del params ''sign''), err))"
proof -
  have f: "first_nonempty (index params ''sign'') = Some s"
    using assms(1,2) by (simp add: first_nonempty_def)
  have c: "ConstantTimeCompare s (hashSumHexBytes (Del params ''sign'') key) = 1"
    using assms(3) by (simp add: ConstantTimeCompare_def)
  show ?thesis unfolding CheckAndInit_def by (simp add: f c Let_def)
qed

lemma CheckAndInit_error_kinds:
  "snd (snd (CheckAndInit ParseTime d vals key)) = Some e \<Longrightarrow>
   e \<in> {InvalidInput, MissingSignature, SignatureMismatch} \<Longrightarrow>
   fst (CheckAndInit ParseTime d vals key) = d"
  unfolding CheckAndInit_def Let_def
  by (auto split: option.splits if_splits prod.splits
      dest!: run_blocks_error_from dest: block_error_kinds)

lemma index_Del_sign:
  "k \<noteq> ''sign'' \<Longrightarrow> first_nonempty (index (Del params ''sign'') k) = first_nonempty (index params k)"
  by (simp add: index_Del)


lemma later_blocks_keep_Signature:
  assumes "b \<in> set (drop 3 (blocks_before_fee_check ParseTime vals s) @ blocks_from_fee_check vals)"
    and "b d0 = Inr d1"
  shows "Signature d1 = Signature d0"
  using assms
  by (auto simp: blocks_before_fee_check_def blocks_from_fee_check_def block_defs
      split: option.splits sum.splits if_splits)

lemma run_blocks_Signature:
  "Signature (fst (run_blocks (blocks_before_fee_check ParseTime vals s
                                 @ blocks_from_fee_check vals) d)) = s"
proof -
  let ?rest = "drop 3 (blocks_before_fee_check ParseTime vals s) @ blocks_from_fee_check vals"
  let ?three = "[init_ServiceVersion vals, init_Charset vals, init_Signature s]"
  have split: "blocks_before_fee_check ParseTime vals s @ blocks_from_fee_check vals
      = take 3 (blocks_before_fee_check ParseTime vals s) @ ?rest"
    by simp
  have "\<exists>d3. run_blocks (take 3 (blocks_before_fee_check ParseTime vals s)) d = (d3, None)
           \<and> Signature d3 = s"
    by (cases "first_nonempty (index vals ''service_version'')";
        cases "first_nonempty (index vals ''input_charset'')")
       (simp_all add: blocks_before_fee_check_def init_ServiceVersion_def init_Charset_def
          init_Signature_def)
  then obtain d3 where three: "run_blocks (take 3 (blocks_before_fee_check ParseTime vals s)) d = (d3, None)"
    and sig: "Signature d3 = s"
    by blast
  have run: "run_blocks (blocks_before_fee_check ParseTime vals s @ blocks_from_fee_check vals) d
      = run_blocks ?rest d3"
    by (subst split, subst run_blocks_append, subst three) simp
  have "Signature (fst (run_blocks ?rest d3)) = Signature d3"
    by (rule run_blocks_preserves) (use later_blocks_keep_Signature in blast)
  with sig show ?thesis unfolding run by simp
qed

lemma blocks_split_fee_type:
  "blocks_before_fee_check ParseTime vals s @ blocks_from_fee_check vals
     = (blocks_before_fee_check ParseTime vals s @ [check_fees]) @ [init_FeeType vals, init_BuyerAlias vals]"
  by (simp add: blocks_from_fee_check_def)

lemma blocks_keep_FeeType_BuyerAlias:
  assumes "b \<in> set (blocks_before_fee_check ParseTime vals s @ [check_fees])"
    and "b d0 = Inr d1"
  shows "FeeType d1 = FeeType d0 \<and> BuyerAlias d1 = BuyerAlias d0"
  using assms
  by (auto simp: blocks_before_fee_check_def block_defs split: option.splits sum.splits if_splits)

lemma run_keep_FeeType_BuyerAlias:
  "FeeType (fst (run_blocks (blocks_before_fee_check ParseTime vals s @ [check_fees]) d)) = FeeType d"
  "BuyerAlias (fst (run_blocks (blocks_before_fee_check ParseTime vals s @ [check_fees]) d)) = BuyerAlias d"
  by (rule run_blocks_preserves, use blocks_keep_FeeType_BuyerAlias in blast)+

lemma run_all_error:
  assumes "run_blocks (blocks_before_fee_check ParseTime vals s @ blocks_from_fee_check vals) d = (d', Some e)"
  shows "FeeType d' = FeeType d \<and> BuyerAlias d' = BuyerAlias d"
proof -
  let ?X = "blocks_before_fee_check ParseTime vals s @ [check_fees]"
  obtain dx ex where X: "run_blocks ?X d = (dx, ex)" by (cases "run_blocks ?X d")
  have keep: "FeeType dx = FeeType d \<and> BuyerAlias dx = BuyerAlias d"
    using run_keep_FeeType_BuyerAlias [of ParseTime vals s d] X by simp
  have "d' = dx"
    using assms unfolding blocks_split_fee_type
    by (subst (asm) run_blocks_append)
       (auto simp: X init_FeeType_def init_BuyerAlias_def split: option.splits sum.splits)
  with keep show ?thesis by simp
qed

lemma last_four_blocks:
  assumes "run_blocks [init_TotalFee vals, init_Discount vals, init_TransportFee vals,
                       init_ProductFee vals] d0 = (d1, None)"
  shows "(\<exists>v. first_nonempty (index vals ''total_fee'') = Some v \<and> ParseInt v = Inr (TotalFee d1))
       \<and> (case first_nonempty (index vals ''transport_fee'') of
             None \<Rightarrow> TransportFee d1 = TransportFee d0
           | Some v \<Rightarrow> ParseInt v = Inr (TransportFee d1))
       \<and> (case first_nonempty (index vals ''product_fee'') of
             None \<Rightarrow> ProductFee d1 = ProductFee d0
           | Some v \<Rightarrow> ParseInt v = Inr (ProductFee d1))"
  using assms
  by (auto simp: init_TotalFee_def init_Discount_def init_TransportFee_def init_ProductFee_def
      split: option.splits sum.splits)

lemma first_blocks_keep_fees:
  assumes "b \<in> set (take 16 (blocks_before_fee_check ParseTime vals s))"
    and "b d0 = Inr d1"
  shows "TransportFee d1 = TransportFee d0 \<and> ProductFee d1 = ProductFee d0"
  using assms
  by (auto simp: blocks_before_fee_check_def block_defs split: option.splits sum.splits if_splits)

lemma fees_after_blocks:
  assumes "run_blocks (blocks_before_fee_check ParseTime vals s) d = (d1, None)"
  shows "(\<exists>v. first_nonempty (index vals ''total_fee'') = Some v \<and> ParseInt v = Inr (TotalFee d1))
       \<and> (case first_nonempty (index vals ''transport_fee'') of
             None \<Rightarrow> TransportFee d1 = TransportFee d
           | Some v \<Rightarrow> ParseInt v = Inr (TransportFee d1))
       \<and> (case first_nonempty (index vals ''product_fee'') of
             None \<Rightarrow> ProductFee d1 = ProductFee d
           | Some v \<Rightarrow> ParseInt v = Inr (ProductFee d1))"
proof -
  let ?pre = "take 16 (blocks_before_fee_check ParseTime vals s)"
  let ?last = "drop 16 (blocks_before_fee_check ParseTime vals s)"
  have last_eq: "?last = [init_TotalFee vals, init_Discount vals, init_TransportFee vals,
                          init_ProductFee vals]"
    by (simp add: blocks_before_fee_check_def)
  obtain d0 e0 where pre: "run_blocks ?pre d = (d0, e0)" by (cases "run_blocks ?pre d")
  have "run_blocks (?pre @ ?last) d = (d1, None)" using assms by simp
  then have "(case run_blocks ?pre d of (d', None) \<Rightarrow> run_blocks ?last d'
                | (d', Some e) \<Rightarrow> (d', Some e)) = (d1, None)"
    by (simp only: run_blocks_append)
  then have last: "run_blocks ?last d0 = (d1, None)"
    unfolding pre by (cases e0) simp_all
  have "TransportFee (fst (run_blocks ?pre d)) = TransportFee d"
    by (rule run_blocks_preserves) (use first_blocks_keep_fees in blast)
  moreover have "ProductFee (fst (run_blocks ?pre d)) = ProductFee d"
    by (rule run_blocks_preserves) (use first_blocks_keep_fees in blast)
  ultimately have "TransportFee d0 = TransportFee d" "ProductFee d0 = ProductFee d"
    using pre by simp_all
  with last_four_blocks [OF last [unfolded last_eq]] show ?thesis
    by (auto split: option.splits)
qed

section \<open>Evaluating the examples\<close>

text \<open>
  The digests and the runs of the examples are computed by rewriting with the definitions:
  one lemma for each hashed string, one for each run of the blocks.
\<close>

lemma le_bytes_numeral:
  "le_bytes (numeral k) x = (x mod 256) # le_bytes (pred_numeral k) (x div 256)"
  by (metis numeral_eq_Suc le_bytes.simps(2))

lemma replicate_numeral_Cons: "replicate (numeral k) x = x # replicate (pred_numeral k) x"
  by (metis numeral_eq_Suc replicate_Suc)

lemmas md5_eval = md5_Sum_def md5_digest_def md5_pad_def md5_blocks.simps md5_block_def
  md5_F_def md5_g_def md5_K_def md5_S_def rotl32_def add32_def not32_def
  le_bytes_numeral replicate_numeral_Cons

lemmas hex_eval = hex_Encode_def hextable_def bytes_ToUpper_def toUpper_byte_def

lemmas string1_eval = string1_def write_key_def write_entry_def index_def

lemmas blocks_eval = blocks_before_fee_check_def blocks_from_fee_check_def block_defs
  first_nonempty_def first_def index_def ParseInt_def ParseUint_def
  NOTIFY_URL_DATA_CHARSET_GBK_def NOTIFY_URL_DATA_SIGN_METHOD_MD5_def
  ParseTime_ex_def zero_NotifyURLData_def

lemma Del_Cons: "Del ((k, v) # xs) k' = (if k = k' then Del xs k' else (k, v) # Del xs k')"
  by (simp add: Del_def)

lemma Del_Nil: "Del [] k = []"
  by (simp add: Del_def)

lemma example_fields_digest:
  "hashSumHexBytes example_fields ''secret'' = ''2C5FDAE63617CE66BD7260B802A7ABDD''"
proof -
  have s: "string1 example_fields ''secret'' =
      ''bank_type=WX&fee_type=1&notify_id=N1&out_trade_no=T1&partner=P1&time_end=20090101000000&total_fee=100&trade_mode=1&trade_state=0&transaction_id=1234567890200901010000000001&key=secret''"
    by (simp add: example_fields_def string1_eval)
  have m: "md5_Sum ''bank_type=WX&fee_type=1&notify_id=N1&out_trade_no=T1&partner=P1&time_end=20090101000000&total_fee=100&trade_mode=1&trade_state=0&transaction_id=1234567890200901010000000001&key=secret'' =
      [44, 95, 218, 230, 54, 23, 206, 102, 189, 114, 96, 184, 2, 167, 171, 221]"
    by (simp add: md5_eval)
  show ?thesis
    by (simp add: hashSumHexBytes_eq s m hex_eval)
qed

lemma example_fees_100_digest:
  "hashSumHexBytes (example_with_fees ''100'' ''30'' ''70'') ''secret'' = ''73DEAF7A2B9D035E7212ACB73A04A7CA''"
proof -
  have s: "string1 (example_with_fees ''100'' ''30'' ''70'') ''secret'' =
      ''bank_type=WX&fee_type=1&notify_id=N1&out_trade_no=T1&partner=P1&product_fee=70&time_end=20090101000000&total_fee=100&trade_mode=1&trade_state=0&transaction_id=1234567890200901010000000001&transport_fee=30&key=secret''"
    by (simp add: example_with_fees_def string1_eval)
  have m: "md5_Sum ''bank_type=WX&fee_type=1&notify_id=N1&out_trade_no=T1&partner=P1&product_fee=70&time_end=20090101000000&total_fee=100&trade_mode=1&trade_state=0&transaction_id=1234567890200901010000000001&transport_fee=30&key=secret'' =
      [115, 222, 175, 122, 43, 157, 3, 94, 114, 18, 172, 183, 58, 4, 167, 202]"
    by (simp add: md5_eval)
  show ?thesis
    by (simp add: hashSumHexBytes_eq s m hex_eval)
qed

lemma example_fees_90_digest:
  "hashSumHexBytes (example_with_fees ''90'' ''30'' ''70'') ''secret'' = ''E082CDEFDBAEA208963884ED207FB3E2''"
proof -
  have s: "string1 (example_with_fees ''90'' ''30'' ''70'') ''secret'' =
      ''bank_type=WX&fee_type=1&notify_id=N1&out_trade_no=T1&partner=P1&product_fee=70&time_end=20090101000000&total_fee=90&trade_mode=1&trade_state=0&transaction_id=1234567890200901010000000001&transport_fee=30&key=secret''"
    by (simp add: example_with_fees_def string1_eval)
  have m: "md5_Sum ''bank_type=WX&fee_type=1&notify_id=N1&out_trade_no=T1&partner=P1&product_fee=70&time_end=20090101000000&total_fee=90&trade_mode=1&trade_state=0&transaction_id=1234567890200901010000000001&transport_fee=30&key=secret'' =
      [224, 130, 205, 239, 219, 174, 162, 8, 150, 56, 132, 237, 32, 127, 179, 226]"
    by (simp add: md5_eval)
  show ?thesis
    by (simp add: hashSumHexBytes_eq s m hex_eval)
qed

lemma example_fees_wrap_digest:
  "hashSumHexBytes (example_with_fees ''-9223372036854775808'' ''9223372036854775807'' ''1'') ''secret'' = ''5802816748D8E20313FDCB220499ABE5''"
proof -
  have s: "string1 (example_with_fees ''-9223372036854775808'' ''9223372036854775807'' ''1'') ''secret'' =
      ''bank_type=WX&fee_type=1&notify_id=N1&out_trade_no=T1&partner=P1&product_fee=1&time_end=20090101000000&total_fee=-9223372036854775808&trade_mode=1&trade_state=0&transaction_id=1234567890200901010000000001&transport_fee=9223372036854775807&key=secret''"
    by (simp add: example_with_fees_def string1_eval)
  have m: "md5_Sum ''bank_type=WX&fee_type=1&notify_id=N1&out_trade_no=T1&partner=P1&product_fee=1&time_end=20090101000000&total_fee=-9223372036854775808&trade_mode=1&trade_state=0&transaction_id=1234567890200901010000000001&transport_fee=9223372036854775807&key=secret'' =
      [88, 2, 129, 103, 72, 216, 226, 3, 19, 253, 203, 34, 4, 153, 171, 229]"
    by (simp add: md5_eval)
  show ?thesis
    by (simp add: hashSumHexBytes_eq s m hex_eval)
qed

lemma example_without_fee_type_digest:
  "hashSumHexBytes example_without_fee_type ''secret'' = ''66D0F4F2A690B7DFDE88ADA654D249AC''"
proof -
  have s: "string1 example_without_fee_type ''secret'' =
      ''bank_type=WX&notify_id=N1&out_trade_no=T1&partner=P1&time_end=20090101000000&total_fee=100&trade_mode=1&trade_state=0&transaction_id=1234567890200901010000000001&key=secret''"
    by (simp add: example_without_fee_type_def string1_eval)
  have m: "md5_Sum ''bank_type=WX&notify_id=N1&out_trade_no=T1&partner=P1&time_end=20090101000000&total_fee=100&trade_mode=1&trade_state=0&transaction_id=1234567890200901010000000001&key=secret'' =
      [102, 208, 244, 242, 166, 144, 183, 223, 222, 136, 173, 166, 84, 210, 73, 172]"
    by (simp add: md5_eval)
  show ?thesis
    by (simp add: hashSumHexBytes_eq s m hex_eval)
qed

lemma sign_only_digest:
  "hashSumHexBytes [] ''secret'' = ''80353F06772F9B5C80204F40D0D34FDA''"
proof -
  have s: "string1 [] ''secret'' =
      ''key=secret''"
    by (simp add: Del_Nil string1_eval)
  have m: "md5_Sum ''key=secret'' =
      [128, 53, 63, 6, 119, 47, 155, 92, 128, 32, 79, 64, 208, 211, 79, 218]"
    by (simp add: md5_eval)
  show ?thesis
    by (simp add: hashSumHexBytes_eq s m hex_eval)
qed

lemma leading_amp_digest:
  "bytes_ToUpper (hex_Encode (md5_Sum ''&key=secret'')) = ''703E7A32F6B3257C1BA566815B929B7D''"
proof -
  have m: "md5_Sum ''&key=secret'' =
      [112, 62, 122, 50, 246, 179, 37, 124, 27, 165, 102, 129, 91, 146, 155, 125]"
    by (simp add: md5_eval)
  show ?thesis
    by (simp add: m hex_eval)
qed

lemma signed_example:
  assumes "hashSumHexBytes fs key = s" and "s \<noteq> []" and "Del fs ''sign'' = fs"
  shows "index ((''sign'', [s]) # fs) ''sign'' = s # []"
    and "s = hashSumHexBytes (Del ((''sign'', [s]) # fs) ''sign'') key"
  using assms by (simp_all add: index_def Del_Cons)

lemma Del_examples:
  "Del example_fields ''sign'' = example_fields"
  "Del (example_with_fees a b c) ''sign'' = example_with_fees a b c"
  "Del example_without_fee_type ''sign'' = example_without_fee_type"
  by (simp_all add: Del_def example_fields_def example_with_fees_def example_without_fee_type_def)


lemma example_fees_100_run:
  "run_blocks (blocks_before_fee_check ParseTime_ex (example_with_fees ''100'' ''30'' ''70'') ''73DEAF7A2B9D035E7212ACB73A04A7CA'') (zero_NotifyURLData [])
     = ((zero_NotifyURLData [])\<lparr>ServiceVersion := ''1.0'', Charset := ''GBK'', Signature := ''73DEAF7A2B9D035E7212ACB73A04A7CA'',
        SignMethod := ''MD5'', SignKeyIndex := 1, NotifyId := ''N1'', TradeMode := 1,
        TradeState := 0, TransactionId := ''1234567890200901010000000001'',
        TimeEnd := ''20090101000000'', BankType := ''WX'', PartnerId := ''P1'',
        OutTradeNo := ''T1'', TotalFee := 100, TransportFee := 30, ProductFee := 70\<rparr>, None)"
  by (simp add: blocks_eval example_with_fees_def)

lemma example_fees_90_run:
  "run_blocks (blocks_before_fee_check ParseTime_ex (example_with_fees ''90'' ''30'' ''70'') ''E082CDEFDBAEA208963884ED207FB3E2'') (zero_NotifyURLData [])
     = ((zero_NotifyURLData [])\<lparr>ServiceVersion := ''1.0'', Charset := ''GBK'', Signature := ''E082CDEFDBAEA208963884ED207FB3E2'',
        SignMethod := ''MD5'', SignKeyIndex := 1, NotifyId := ''N1'', TradeMode := 1,
        TradeState := 0, TransactionId := ''1234567890200901010000000001'',
        TimeEnd := ''20090101000000'', BankType := ''WX'', PartnerId := ''P1'',
        OutTradeNo := ''T1'', TotalFee := 90, TransportFee := 30, ProductFee := 70\<rparr>, None)"
  by (simp add: blocks_eval example_with_fees_def)

lemma example_fees_wrap_run:
  "run_blocks (blocks_before_fee_check ParseTime_ex
        (example_with_fees ''-9223372036854775808'' ''9223372036854775807'' ''1'') ''5802816748D8E20313FDCB220499ABE5''
      @ blocks_from_fee_check (example_with_fees ''-9223372036854775808'' ''9223372036854775807'' ''1''))
     (zero_NotifyURLData [])
     = ((zero_NotifyURLData [])\<lparr>ServiceVersion := ''1.0'', Charset := ''GBK'', Signature := ''5802816748D8E20313FDCB220499ABE5'',
        SignMethod := ''MD5'', SignKeyIndex := 1, NotifyId := ''N1'', TradeMode := 1,
        TradeState := 0, TransactionId := ''1234567890200901010000000001'',
        TimeEnd := ''20090101000000'', BankType := ''WX'', PartnerId := ''P1'',
        OutTradeNo := ''T1'', TotalFee := - 9223372036854775808, TransportFee := 9223372036854775807, ProductFee := 1, FeeType := 1\<rparr>, None)"
  by (simp add: blocks_eval example_with_fees_def)

lemma example_without_fee_type_run:
  "run_blocks (blocks_before_fee_check ParseTime_ex example_without_fee_type ''66D0F4F2A690B7DFDE88ADA654D249AC'' @ [check_fees]) (zero_NotifyURLData [])
     = ((zero_NotifyURLData [])\<lparr>ServiceVersion := ''1.0'', Charset := ''GBK'', Signature := ''66D0F4F2A690B7DFDE88ADA654D249AC'',
        SignMethod := ''MD5'', SignKeyIndex := 1, NotifyId := ''N1'', TradeMode := 1,
        TradeState := 0, TransactionId := ''1234567890200901010000000001'',
        TimeEnd := ''20090101000000'', BankType := ''WX'', PartnerId := ''P1'',
        OutTradeNo := ''T1'', TotalFee := 100\<rparr>, None)"
  by (simp add: blocks_eval example_without_fee_type_def)

lemma spec_entries_eval:
  "spec_entries params =
     concat (map (\<lambda>k. map (\<lambda>v. k @ ''='' @ v) (index params k))
                 (sort (remdups (filter (\<lambda>k. k \<noteq> ''sign'') (map fst params)))))"
proof -
  have "fst ` set params - {''sign''} = set (filter (\<lambda>k. k \<noteq> ''sign'') (map fst params))"
    by auto
  then show ?thesis
    unfolding spec_entries_def by (simp only: sorted_list_of_set_sort_remdups)
qed

lemmas check_eval = CheckAndInit_def first_nonempty_def index_def ConstantTimeCompare_def
  Del_Cons Del_Nil Del_examples


lemma example_fees_100_result:
  "snd (snd (CheckAndInit ParseTime_ex (zero_NotifyURLData [])
       (Some ((''sign'', [''73DEAF7A2B9D035E7212ACB73A04A7CA'']) # example_with_fees ''100'' ''30'' ''70''))
       ''secret'')) = None"
proof -
  have "snd (run_blocks (blocks_from_fee_check (example_with_fees ''100'' ''30'' ''70''))
      (fst (run_blocks (blocks_before_fee_check ParseTime_ex (example_with_fees ''100'' ''30'' ''70'')
                          ''73DEAF7A2B9D035E7212ACB73A04A7CA'') (zero_NotifyURLData [])))) = None"
    unfolding example_fees_100_run by (simp add: blocks_eval example_with_fees_def)
  then show ?thesis
    unfolding CheckAndInit_def
    by (subst run_blocks_append)
       (simp add: first_nonempty_def index_def ConstantTimeCompare_def Del_Cons Del_examples
          example_fees_100_digest example_fees_100_run Let_def case_prod_beta)
qed

lemma example_fees_wrap_result:
  "CheckAndInit ParseTime_ex (zero_NotifyURLData []) (Some ((''sign'', [''5802816748D8E20313FDCB220499ABE5'']) # example_with_fees ''-9223372036854775808'' ''9223372036854775807'' ''1'')) ''secret''
     = (fst (run_blocks (blocks_before_fee_check ParseTime_ex (example_with_fees ''-9223372036854775808'' ''9223372036854775807'' ''1'') ''5802816748D8E20313FDCB220499ABE5''
                           @ blocks_from_fee_check (example_with_fees ''-9223372036854775808'' ''9223372036854775807'' ''1'')) (zero_NotifyURLData [])),
        Some (example_with_fees ''-9223372036854775808'' ''9223372036854775807'' ''1''), None)"
  by (simp add: check_eval example_fees_wrap_digest example_fees_wrap_run)

lemma example_without_fee_type_result:
  "CheckAndInit ParseTime_ex (zero_NotifyURLData []) (Some ((''sign'', [''66D0F4F2A690B7DFDE88ADA654D249AC'']) # example_without_fee_type)) ''secret''
     = (fst (run_blocks (blocks_before_fee_check ParseTime_ex example_without_fee_type ''66D0F4F2A690B7DFDE88ADA654D249AC''
                           @ [check_fees]) (zero_NotifyURLData [])),
        Some example_without_fee_type, Some (MissingField ''fee_type''))"
proof -
  have f: "init_FeeType example_without_fee_type dx = Inl (MissingField ''fee_type'')"
    for dx :: "string NotifyURLData"
    by (simp add: init_FeeType_def first_nonempty_def index_def example_without_fee_type_def)
  show ?thesis
    unfolding CheckAndInit_def blocks_split_fee_type
    by (subst run_blocks_append)
       (simp add: first_nonempty_def index_def ConstantTimeCompare_def Del_Cons Del_examples
          example_without_fee_type_digest example_without_fee_type_run f)
qed

lemma sign_only_result:
  "CheckAndInit ParseTime_ex (zero_NotifyURLData [])
       (Some [(''sign'', [''80353F06772F9B5C80204F40D0D34FDA''])]) ''secret''
     = ((zero_NotifyURLData [])\<lparr>ServiceVersion := ''1.0'', Charset := ''GBK'',
          Signature := ''80353F06772F9B5C80204F40D0D34FDA'', SignMethod := ''MD5'',
          SignKeyIndex := 1\<rparr>,
        Some [], Some (MissingField ''notify_id''))"
  by (simp add: CheckAndInit_def ConstantTimeCompare_def Del_Cons Del_Nil sign_only_digest
      blocks_eval)

section \<open>The claims\<close>

text \<open>
  Claim C1, amended. The canonical digest is the upper-cased hexadecimal MD5 of the
  specification's string when there is at least one \<open>key=value\<close> entry, and of
  \<open>key=<secretKey>\<close> with no leading \<open>&\<close> when there is none. A parameter set with
  distinct keys whose first \<open>sign\<close> value is not empty and differs from that digest is
  rejected with \<open>SignatureMismatch\<close>; the record is returned as it was given, so no field
  has been extracted, and the map has lost its \<open>sign\<close> key.
\<close>

theorem C1_mismatch_amended:
  assumes "wf_Values params" and "index params ''sign'' = s # rest" and "s \<noteq> []"
    and "s \<noteq> bytes_ToUpper (hex_Encode (md5_Sum
            (if spec_entries params = [] then ''key='' @ key else spec_string params key)))"
  shows "CheckAndInit ParseTime data (Some params) key
           = (data, Some (Del params ''sign''), Some SignatureMismatch)"
proof -
  have "string1 (Del params ''sign'') key
           = (if spec_entries params = [] then ''key='' @ key else spec_string params key)"
    using string1_spec [OF assms(1)] by (simp add: spec_string_def)
  then have "s \<noteq> hashSumHexBytes (Del params ''sign'') key"
    using assms(4) by (simp add: hashSumHexBytes_eq)
  with assms(2,3) show ?thesis
    by (simp add: CheckAndInit_def first_nonempty_def ConstantTimeCompare_def)
qed

text \<open>
  The end-to-end example, signed with the right digest written in lower case: the
  comparison is case-sensitive.
\<close>

theorem C1_mismatch_amended_witness:
  "CheckAndInit ParseTime_ex (zero_NotifyURLData [])
       (Some ((''sign'', [''2c5fdae63617ce66bd7260b802a7abdd'']) # example_fields)) ''secret''
     = (zero_NotifyURLData [], Some example_fields, Some SignatureMismatch)"
proof -
  let ?s = "''2c5fdae63617ce66bd7260b802a7abdd''"
  let ?p = "(''sign'', [?s]) # example_fields"
  have wf: "wf_Values ?p"
    by (simp add: wf_Values_def example_fields_def)
  have 1: "index ?p ''sign'' = ?s # []"
    by (simp add: index_def)
  have 2: "?s \<noteq> []"
    by simp
  have "bytes_ToUpper (hex_Encode (md5_Sum
            (if spec_entries ?p = [] then ''key='' @ ''secret'' else spec_string ?p ''secret'')))
          = hashSumHexBytes (Del ?p ''sign'') ''secret''"
    using string1_spec [OF wf, of "''secret''"] by (simp add: hashSumHexBytes_eq spec_string_def)
  then have 3: "?s \<noteq> bytes_ToUpper (hex_Encode (md5_Sum
            (if spec_entries ?p = [] then ''key='' @ ''secret'' else spec_string ?p ''secret'')))"
    by (simp add: Del_Cons Del_examples example_fields_digest)
  show ?thesis
    using C1_mismatch_amended [OF wf 1 2 3, of ParseTime_ex "zero_NotifyURLData []"]
    by (simp add: Del_Cons Del_examples)
qed

text \<open>
  As stated, with the specification's string \<open>&key=secret\<close> for the parameter set whose
  only key is \<open>sign\<close>, C1 fails: a \<open>sign\<close> value that differs from the digest of that
  string is accepted when it is the digest of \<open>key=secret\<close>, and fields are assigned.
\<close>

theorem C1_mismatch_counterexample:
  "''80353F06772F9B5C80204F40D0D34FDA''
     \<noteq> bytes_ToUpper (hex_Encode (md5_Sum
          (spec_string [(''sign'', [''80353F06772F9B5C80204F40D0D34FDA''])] ''secret'')))
   \<and> snd (snd (CheckAndInit ParseTime_ex (zero_NotifyURLData [])
          (Some [(''sign'', [''80353F06772F9B5C80204F40D0D34FDA''])]) ''secret''))
       = Some (MissingField ''notify_id'')
   \<and> snd (snd (CheckAndInit ParseTime_ex (zero_NotifyURLData [])
          (Some [(''sign'', [''80353F06772F9B5C80204F40D0D34FDA''])]) ''secret''))
       \<noteq> Some SignatureMismatch
   \<and> Signature (fst (CheckAndInit ParseTime_ex (zero_NotifyURLData [])
          (Some [(''sign'', [''80353F06772F9B5C80204F40D0D34FDA''])]) ''secret''))
       = ''80353F06772F9B5C80204F40D0D34FDA''"
proof -
  have sp: "spec_string [(''sign'', [''80353F06772F9B5C80204F40D0D34FDA''])] ''secret'' = ''&key=secret''"
    by (simp add: spec_string_def spec_entries_eval)
  show ?thesis
    by (simp add: sp leading_amp_digest sign_only_result)
qed

text \<open>
  Claim C2, amended. For a parameter set with distinct keys, the string that is hashed
  is the specification's string when there is at least one \<open>key=value\<close> entry, and is
  \<open>key=<secretKey>\<close> with no leading \<open>&\<close> when there is none; the digest is the
  upper-cased hexadecimal MD5 of that string; and for a non-empty first \<open>sign\<close> value
  \<open>CheckAndInit\<close> reports \<open>SignatureMismatch\<close> exactly when that value differs from this
  digest.
\<close>

theorem C2_digest_amended:
  assumes "wf_Values params"
  shows "string1 (Del params ''sign'') key
           = (if spec_entries params = [] then ''key='' @ key else spec_string params key)
       \<and> hashSumHexBytes (Del params ''sign'') key
           = bytes_ToUpper (hex_Encode (md5_Sum
               (if spec_entries params = [] then ''key='' @ key else spec_string params key)))
       \<and> (\<forall>s rest. index params ''sign'' = s # rest \<and> s \<noteq> [] \<longrightarrow>
            (snd (snd (CheckAndInit ParseTime d (Some params) key)) = Some SignatureMismatch
               \<longleftrightarrow> s \<noteq> bytes_ToUpper (hex_Encode (md5_Sum
                     (if spec_entries params = [] then ''key='' @ key else spec_string params key)))))"
proof -
  let ?c = "if spec_entries params = [] then ''key='' @ key else spec_string params key"
  have str: "string1 (Del params ''sign'') key = ?c"
    using string1_spec [OF assms] by (simp add: spec_string_def)
  then have dig: "hashSumHexBytes (Del params ''sign'') key = bytes_ToUpper (hex_Encode (md5_Sum ?c))"
    by (simp add: hashSumHexBytes_eq)
  have cmp: "snd (snd (CheckAndInit ParseTime d (Some params) key)) = Some SignatureMismatch
               \<longleftrightarrow> s \<noteq> bytes_ToUpper (hex_Encode (md5_Sum ?c))"
    if s: "index params ''sign'' = s # rest" "s \<noteq> []" for s rest
  proof (cases "s = hashSumHexBytes (Del params ''sign'') key")
    case True
    have "snd (snd (CheckAndInit ParseTime d (Some params) key)) \<noteq> Some SignatureMismatch"
      unfolding CheckAndInit_signed [OF s True]
      by (auto split: prod.splits dest!: run_blocks_error_from dest: block_error_kinds)
    with True dig show ?thesis by simp
  next
    case False
    have "CheckAndInit ParseTime d (Some params) key = (d, Some (Del params ''sign''), Some SignatureMismatch)"
      using s False by (simp add: CheckAndInit_def first_nonempty_def ConstantTimeCompare_def)
    with False dig show ?thesis by simp
  qed
  from str dig cmp show ?thesis by blast
qed

text \<open>
  A parameter set with a repeated key, enumerated out of order.
\<close>

theorem C2_digest_amended_witness:
  "wf_Values [(''b'', [''2'', ''1'']), (''sign'', [''X'']), (''a'', [''3''])]
   \<and> string1 (Del [(''b'', [''2'', ''1'']), (''sign'', [''X'']), (''a'', [''3''])] ''sign'') ''k''
       = ''a=3&b=2&b=1&key=k''
   \<and> hashSumHexBytes (Del [(''b'', [''2'', ''1'']), (''sign'', [''X'']), (''a'', [''3''])] ''sign'') ''k''
       = bytes_ToUpper (hex_Encode (md5_Sum ''a=3&b=2&b=1&key=k''))"
proof -
  let ?p = "[(''b'', [''2'', ''1'']), (''sign'', [''X'']), (''a'', [''3''])]"
  have wf: "wf_Values ?p"
    by (simp add: wf_Values_def)
  have se: "spec_entries ?p = [''a=3'', ''b=2'', ''b=1'']"
    by (simp add: spec_entries_eval index_def)
  show ?thesis
    using C2_digest_amended [OF wf, where key = "''k''" and ParseTime = ParseTime_ex and d = "(zero_NotifyURLData [])"] wf
    by (simp add: se spec_string_def)
qed

text \<open>
  As stated, C2 fails on the parameter set whose only key is \<open>sign\<close>: the claim's
  string is \<open>&key=secret\<close>, and a \<open>sign\<close> value equal to the digest of that string is
  rejected, because the string that is hashed is \<open>key=secret\<close>.
\<close>

theorem C2_digest_counterexample:
  "bytes_ToUpper (hex_Encode (md5_Sum (spec_string [(''sign'', [''703E7A32F6B3257C1BA566815B929B7D''])] ''secret''))) = ''703E7A32F6B3257C1BA566815B929B7D''
   \<and> hashSumHexBytes (Del [(''sign'', [''703E7A32F6B3257C1BA566815B929B7D''])] ''sign'') ''secret''
       \<noteq> bytes_ToUpper (hex_Encode (md5_Sum (spec_string [(''sign'', [''703E7A32F6B3257C1BA566815B929B7D''])] ''secret'')))
   \<and> CheckAndInit ParseTime_ex (zero_NotifyURLData []) (Some [(''sign'', [''703E7A32F6B3257C1BA566815B929B7D''])]) ''secret''
       = ((zero_NotifyURLData []), Some [], Some SignatureMismatch)"
proof -
  have sp: "spec_string [(''sign'', [''703E7A32F6B3257C1BA566815B929B7D''])] ''secret'' = ''&key=secret''"
    by (simp add: spec_string_def spec_entries_eval)
  show ?thesis
    by (simp add: sp leading_amp_digest check_eval sign_only_digest)
qed

text \<open>
  Claim C3. Two parameter sets with the same entries, enumerated in different orders,
  have the same hashed string and the same digest, before and after the removal of
  \<open>sign\<close>.
\<close>

theorem C3_order_independent:
  assumes "wf_Values m1" and "wf_Values m2" and "set m1 = set m2"
  shows "string1 m1 key = string1 m2 key \<and> hashSumHexBytes m1 key = hashSumHexBytes m2 key
       \<and> hashSumHexBytes (Del m1 ''sign'') key = hashSumHexBytes (Del m2 ''sign'') key"
proof -
  have d: "distinct (map fst m1)" "distinct (map fst m2)" using assms by (simp_all add: wf_Values_def)
  have "set (Del m1 ''sign'') = set (Del m2 ''sign'')" using assms(3) by (simp add: Del_def)
  then have "string1 (Del m1 ''sign'') key = string1 (Del m2 ''sign'') key"
    by (intro string1_cong distinct_Del d)
  with string1_cong [OF d assms(3)] show ?thesis by (simp add: hashSumHexBytes_eq)
qed

text \<open>
  Two enumerations of one parameter set.
\<close>

theorem C3_order_independent_witness:
  "wf_Values [(''a'', [''1'', ''2'']), (''b'', [''3''])] \<and> wf_Values [(''b'', [''3'']), (''a'', [''1'', ''2''])]
   \<and> string1 [(''a'', [''1'', ''2'']), (''b'', [''3''])] ''k'' = string1 [(''b'', [''3'']), (''a'', [''1'', ''2''])] ''k''
   \<and> hashSumHexBytes [(''a'', [''1'', ''2'']), (''b'', [''3''])] ''k''
       = hashSumHexBytes [(''b'', [''3'']), (''a'', [''1'', ''2''])] ''k''"
proof -
  have 1: "wf_Values [(''a'', [''1'', ''2'']), (''b'', [''3''])]"
    by (simp add: wf_Values_def)
  have 2: "wf_Values [(''b'', [''3'']), (''a'', [''1'', ''2''])]"
    by (simp add: wf_Values_def)
  have 3: "set [(''a'', [''1'', ''2'']), (''b'', [''3''])] = set [(''b'', [''3'']), (''a'', [''1'', ''2''])]"
    by auto
  show ?thesis
    using C3_order_independent [OF 1 2 3, of "''k''"] 1 2 by simp
qed



text \<open>
  Claim C5, amended. For a correctly signed parameter set on which every block before
  the fee check succeeds, leaving the record \<open>d1\<close>: if the transport fee or the product
  fee of \<open>d1\<close> is not zero and their sum, taken in 64-bit wrap-around arithmetic, differs
  from the total fee, \<open>CheckAndInit\<close> fails with \<open>InconsistentFees\<close>; if both are zero, or
  the wrapped sum equals the total fee, it does not fail with \<open>InconsistentFees\<close>. The three
  fees of \<open>d1\<close> are the parsed parameters, an absent or empty \<open>transport_fee\<close> or
  \<open>product_fee\<close> leaving the value the record had before the call.
\<close>

theorem C5_fee_check_amended:
  assumes "index params ''sign'' = s # rest" and "s \<noteq> []"
    and "s = hashSumHexBytes (Del params ''sign'') key"
    and "run_blocks (blocks_before_fee_check ParseTime (Del params ''sign'') s) d = (d1, None)"
  shows "((TransportFee d1 \<noteq> 0 \<or> ProductFee d1 \<noteq> 0) \<and> TransportFee d1 + ProductFee d1 \<noteq> TotalFee d1
            \<longrightarrow> CheckAndInit ParseTime d (Some params) key
                  = (d1, Some (Del params ''sign''), Some InconsistentFees))
       \<and> (TransportFee d1 = 0 \<and> ProductFee d1 = 0 \<or> TransportFee d1 + ProductFee d1 = TotalFee d1
            \<longrightarrow> snd (snd (CheckAndInit ParseTime d (Some params) key)) \<noteq> Some InconsistentFees)
       \<and> (\<exists>v. first_nonempty (index params ''total_fee'') = Some v \<and> ParseInt v = Inr (TotalFee d1))
       \<and> (case first_nonempty (index params ''transport_fee'') of
             None \<Rightarrow> TransportFee d1 = TransportFee d
           | Some v \<Rightarrow> ParseInt v = Inr (TransportFee d1))
       \<and> (case first_nonempty (index params ''product_fee'') of
             None \<Rightarrow> ProductFee d1 = ProductFee d
           | Some v \<Rightarrow> ParseInt v = Inr (ProductFee d1))"
proof -
  let ?vals = "Del params ''sign''"
  have res: "CheckAndInit ParseTime d (Some params) key =
      (case run_blocks (blocks_from_fee_check ?vals) d1 of (d', err) \<Rightarrow> (d', Some ?vals, err))"
    unfolding CheckAndInit_signed [OF assms(1-3)]
    by (subst run_blocks_append) (simp add: assms(4))
  have bad: "CheckAndInit ParseTime d (Some params) key = (d1, Some ?vals, Some InconsistentFees)"
    if "(TransportFee d1 \<noteq> 0 \<or> ProductFee d1 \<noteq> 0) \<and> TransportFee d1 + ProductFee d1 \<noteq> TotalFee d1"
    unfolding res using that by (simp add: blocks_from_fee_check_def check_fees_def)
  have good: "snd (snd (CheckAndInit ParseTime d (Some params) key)) \<noteq> Some InconsistentFees"
    if "TransportFee d1 = 0 \<and> ProductFee d1 = 0 \<or> TransportFee d1 + ProductFee d1 = TotalFee d1"
    unfolding res using that
    by (auto simp: blocks_from_fee_check_def check_fees_def init_FeeType_def init_BuyerAlias_def
        split: option.splits sum.splits)
  have fees: "(\<exists>v. first_nonempty (index params ''total_fee'') = Some v \<and> ParseInt v = Inr (TotalFee d1))
       \<and> (case first_nonempty (index params ''transport_fee'') of
             None \<Rightarrow> TransportFee d1 = TransportFee d
           | Some v \<Rightarrow> ParseInt v = Inr (TransportFee d1))
       \<and> (case first_nonempty (index params ''product_fee'') of
             None \<Rightarrow> ProductFee d1 = ProductFee d
           | Some v \<Rightarrow> ParseInt v = Inr (ProductFee d1))"
    using fees_after_blocks [OF assms(4)] by (simp add: index_Del_sign)
  from bad good fees show ?thesis by blast
qed

text \<open>
  With fees 30 and 70, a total of 90 is refused and a total of 100 is accepted.
\<close>

theorem C5_fee_check_amended_witness:
  "snd (snd (CheckAndInit ParseTime_ex (zero_NotifyURLData [])
       (Some ((''sign'', [''E082CDEFDBAEA208963884ED207FB3E2'']) # example_with_fees ''90'' ''30'' ''70'')) ''secret''))
     = Some InconsistentFees
   \<and> snd (snd (CheckAndInit ParseTime_ex (zero_NotifyURLData [])
       (Some ((''sign'', [''73DEAF7A2B9D035E7212ACB73A04A7CA'']) # example_with_fees ''100'' ''30'' ''70'')) ''secret''))
     = None"
proof -
  let ?p90 = "(''sign'', [''E082CDEFDBAEA208963884ED207FB3E2'']) # example_with_fees ''90'' ''30'' ''70''"
  let ?p100 = "(''sign'', [''73DEAF7A2B9D035E7212ACB73A04A7CA'']) # example_with_fees ''100'' ''30'' ''70''"
  note s90 = signed_example [OF example_fees_90_digest _ Del_examples(2)]
  note s100 = signed_example [OF example_fees_100_digest _ Del_examples(2)]
  have n90: "''E082CDEFDBAEA208963884ED207FB3E2'' \<noteq> []" and n100: "''73DEAF7A2B9D035E7212ACB73A04A7CA'' \<noteq> []"
    by simp_all
  have r90: "run_blocks (blocks_before_fee_check ParseTime_ex (Del ?p90 ''sign'') ''E082CDEFDBAEA208963884ED207FB3E2'') (zero_NotifyURLData [])
     = ((zero_NotifyURLData [])\<lparr>ServiceVersion := ''1.0'', Charset := ''GBK'', Signature := ''E082CDEFDBAEA208963884ED207FB3E2'',
        SignMethod := ''MD5'', SignKeyIndex := 1, NotifyId := ''N1'', TradeMode := 1,
        TradeState := 0, TransactionId := ''1234567890200901010000000001'',
        TimeEnd := ''20090101000000'', BankType := ''WX'', PartnerId := ''P1'',
        OutTradeNo := ''T1'', TotalFee := 90, TransportFee := 30, ProductFee := 70\<rparr>, None)"
    by (simp add: Del_Cons Del_examples example_fees_90_run)
  have r100: "run_blocks (blocks_before_fee_check ParseTime_ex (Del ?p100 ''sign'') ''73DEAF7A2B9D035E7212ACB73A04A7CA'') (zero_NotifyURLData [])
     = ((zero_NotifyURLData [])\<lparr>ServiceVersion := ''1.0'', Charset := ''GBK'', Signature := ''73DEAF7A2B9D035E7212ACB73A04A7CA'',
        SignMethod := ''MD5'', SignKeyIndex := 1, NotifyId := ''N1'', TradeMode := 1,
        TradeState := 0, TransactionId := ''1234567890200901010000000001'',
        TimeEnd := ''20090101000000'', BankType := ''WX'', PartnerId := ''P1'',
        OutTradeNo := ''T1'', TotalFee := 100, TransportFee := 30, ProductFee := 70\<rparr>, None)"
    by (simp add: Del_Cons Del_examples example_fees_100_run)
  show ?thesis
    using C5_fee_check_amended [OF s90(1) n90 s90(2) r90] C5_fee_check_amended [OF s100(1) n100 s100(2) r100]
      n90 n100
    by (simp add: example_fees_100_result)
qed

text \<open>
  As stated, C5 fails when the sum overflows: with
  \<open>transport_fee=9223372036854775807\<close>, \<open>product_fee=1\<close> and
  \<open>total_fee=-9223372036854775808\<close> the integers do not add up, yet the wrapped sum
  equals the total fee and the call succeeds.
\<close>

theorem C5_fee_check_counterexample:
  "sint (TransportFee (fst (CheckAndInit ParseTime_ex (zero_NotifyURLData []) (Some ((''sign'', [''5802816748D8E20313FDCB220499ABE5'']) # example_with_fees ''-9223372036854775808'' ''9223372036854775807'' ''1'')) ''secret'')))
     = 9223372036854775807
   \<and> sint (ProductFee (fst (CheckAndInit ParseTime_ex (zero_NotifyURLData []) (Some ((''sign'', [''5802816748D8E20313FDCB220499ABE5'']) # example_with_fees ''-9223372036854775808'' ''9223372036854775807'' ''1'')) ''secret''))) = 1
   \<and> sint (TotalFee (fst (CheckAndInit ParseTime_ex (zero_NotifyURLData []) (Some ((''sign'', [''5802816748D8E20313FDCB220499ABE5'']) # example_with_fees ''-9223372036854775808'' ''9223372036854775807'' ''1'')) ''secret'')))
     = - 9223372036854775808
   \<and> (9223372036854775807 :: int) + 1 \<noteq> - 9223372036854775808
   \<and> snd (snd (CheckAndInit ParseTime_ex (zero_NotifyURLData []) (Some ((''sign'', [''5802816748D8E20313FDCB220499ABE5'']) # example_with_fees ''-9223372036854775808'' ''9223372036854775807'' ''1'')) ''secret'')) = None"
  by (simp add: example_fees_wrap_result example_fees_wrap_run)

text \<open>
  Claim C6, amended. For a correctly signed parameter set in which \<open>fee_type\<close> is
  absent or has an empty first value, \<open>CheckAndInit\<close> returns an error and leaves
  \<open>FeeType\<close> as it was: no default is applied. When every block up to and including the
  fee check succeeds, the error is \<open>MissingField fee_type\<close>.
\<close>

theorem C6_fee_type_amended:
  assumes "index params ''sign'' = s # rest" and "s \<noteq> []"
    and "s = hashSumHexBytes (Del params ''sign'') key"
    and "index params ''fee_type'' = [] \<or> hd (index params ''fee_type'') = []"
  shows "snd (snd (CheckAndInit ParseTime d (Some params) key)) \<noteq> None
       \<and> FeeType (fst (CheckAndInit ParseTime d (Some params) key)) = FeeType d
       \<and> (\<forall>d1. run_blocks (blocks_before_fee_check ParseTime (Del params ''sign'') s @ [check_fees]) d
                  = (d1, None)
             \<longrightarrow> CheckAndInit ParseTime d (Some params) key
                  = (d1, Some (Del params ''sign''), Some (MissingField ''fee_type'')))"
proof -
  let ?vals = "Del params ''sign''"
  let ?X = "blocks_before_fee_check ParseTime ?vals s @ [check_fees]"
  have abs: "first_nonempty (index ?vals ''fee_type'') = None"
    using assms(4) by (simp add: index_Del_sign first_nonempty_None)
  have fail: "init_FeeType ?vals dx = Inl (MissingField ''fee_type'')" for dx :: "'b NotifyURLData"
    by (simp add: init_FeeType_def abs)
  obtain dx ex where X: "run_blocks ?X d = (dx, ex)" by (cases "run_blocks ?X d")
  have keep: "FeeType dx = FeeType d"
    using run_keep_FeeType_BuyerAlias(1) [of ParseTime ?vals s d] X by simp
  have res: "CheckAndInit ParseTime d (Some params) key =
      (dx, Some ?vals, case ex of None \<Rightarrow> Some (MissingField ''fee_type'') | Some e \<Rightarrow> Some e)"
    unfolding CheckAndInit_signed [OF assms(1-3)] blocks_split_fee_type
    by (subst run_blocks_append) (simp add: X fail split: option.splits)
  show ?thesis unfolding res using keep X by (auto split: option.splits)
qed

text \<open>
  The end-to-end example without \<open>fee_type\<close>.
\<close>

theorem C6_fee_type_amended_witness:
  "snd (snd (CheckAndInit ParseTime_ex (zero_NotifyURLData [])
       (Some ((''sign'', [''66D0F4F2A690B7DFDE88ADA654D249AC'']) # example_without_fee_type)) ''secret''))
     = Some (MissingField ''fee_type'')
   \<and> FeeType (fst (CheckAndInit ParseTime_ex (zero_NotifyURLData [])
       (Some ((''sign'', [''66D0F4F2A690B7DFDE88ADA654D249AC'']) # example_without_fee_type)) ''secret''))
     = 0"
proof -
  let ?p = "(''sign'', [''66D0F4F2A690B7DFDE88ADA654D249AC'']) # example_without_fee_type"
  have z: "FeeType (zero_NotifyURLData t0) = 0" for t0 :: string
    by (simp add: zero_NotifyURLData_def)
  note s = signed_example [OF example_without_fee_type_digest _ Del_examples(3)]
  have 2: "''66D0F4F2A690B7DFDE88ADA654D249AC'' \<noteq> []"
    by simp
  have 4: "index ?p ''fee_type'' = [] \<or> hd (index ?p ''fee_type'') = []"
    by (simp add: index_def example_without_fee_type_def)
  show ?thesis
    using C6_fee_type_amended [OF s(1) 2 s(2) 4, of ParseTime_ex "(zero_NotifyURLData [])"]
    by (simp add: example_without_fee_type_result z)
qed

text \<open>
  As stated, C6 fails on the end-to-end example without \<open>fee_type\<close>: the call
  returns an error, and \<open>FeeType\<close> is not set to 1.
\<close>

theorem C6_fee_type_counterexample:
  "snd (snd (CheckAndInit ParseTime_ex (zero_NotifyURLData [])
       (Some ((''sign'', [''66D0F4F2A690B7DFDE88ADA654D249AC'']) # example_without_fee_type)) ''secret'')) \<noteq> None
   \<and> FeeType (fst (CheckAndInit ParseTime_ex (zero_NotifyURLData [])
       (Some ((''sign'', [''66D0F4F2A690B7DFDE88ADA654D249AC'']) # example_without_fee_type)) ''secret'')) \<noteq> 1"
proof -
  have "FeeType (fst (run_blocks (blocks_before_fee_check ParseTime_ex example_without_fee_type
            ''66D0F4F2A690B7DFDE88ADA654D249AC'' @ [check_fees]) (zero_NotifyURLData []))) = 0"
    unfolding example_without_fee_type_run by (simp add: zero_NotifyURLData_def)
  then show ?thesis
    by (simp add: example_without_fee_type_result)
qed

text \<open>
  Claim C7, amended. When \<open>CheckAndInit\<close> returns \<open>InvalidInput\<close>,
  \<open>MissingSignature\<close> or \<open>SignatureMismatch\<close>, the record is as it was given. When it
  returns any error, \<open>FeeType\<close> and \<open>BuyerAlias\<close> are as they were given. For a
  correctly signed parameter set, with or without an error, \<open>Signature\<close> is the received
  signature, and the record is the one built by the blocks before the failing block: the
  first \<open>n\<close> of the 23 blocks succeed in order and leave exactly the record that is
  returned, block \<open>n\<close> fails on that record with the error that is returned, and
  \<open>n = 23\<close> when there is no error.
\<close>

theorem C7_error_record_amended:
  "(snd (snd (CheckAndInit ParseTime d vals key))
      \<in> {Some InvalidInput, Some MissingSignature, Some SignatureMismatch}
      \<longrightarrow> fst (CheckAndInit ParseTime d vals key) = d)
   \<and> (snd (snd (CheckAndInit ParseTime d vals key)) \<noteq> None
      \<longrightarrow> FeeType (fst (CheckAndInit ParseTime d vals key)) = FeeType d
        \<and> BuyerAlias (fst (CheckAndInit ParseTime d vals key)) = BuyerAlias d)
   \<and> (\<forall>params s rest. vals = Some params \<and> index params ''sign'' = s # rest \<and> s \<noteq> []
          \<and> s = hashSumHexBytes (Del params ''sign'') key
      \<longrightarrow> Signature (fst (CheckAndInit ParseTime d vals key)) = s
        \<and> (\<exists>n. n \<le> 23
              \<and> run_blocks (take n (blocks_before_fee_check ParseTime (Del params ''sign'') s
                                      @ blocks_from_fee_check (Del params ''sign''))) d
                 = (fst (CheckAndInit ParseTime d vals key), None)
              \<and> (case snd (snd (CheckAndInit ParseTime d vals key)) of
                    None \<Rightarrow> n = 23
                  | Some e \<Rightarrow> n < 23
                      \<and> ((blocks_before_fee_check ParseTime (Del params ''sign'') s
                            @ blocks_from_fee_check (Del params ''sign'')) ! n)
                          (fst (CheckAndInit ParseTime d vals key)) = Inl e)))"
proof -
  have "fst (CheckAndInit ParseTime d vals key) = d"
    if "snd (snd (CheckAndInit ParseTime d vals key))
          \<in> {Some InvalidInput, Some MissingSignature, Some SignatureMismatch}"
    using that CheckAndInit_error_kinds [of ParseTime d vals key] by auto
  moreover have "FeeType (fst (CheckAndInit ParseTime d vals key)) = FeeType d
        \<and> BuyerAlias (fst (CheckAndInit ParseTime d vals key)) = BuyerAlias d"
    if "snd (snd (CheckAndInit ParseTime d vals key)) \<noteq> None"
    using that unfolding CheckAndInit_def Let_def
    by (auto split: option.splits if_splits prod.splits dest: run_all_error)
  moreover have "Signature (fst (CheckAndInit ParseTime d vals key)) = s
        \<and> (\<exists>n. n \<le> 23
              \<and> run_blocks (take n (blocks_before_fee_check ParseTime (Del params ''sign'') s
                                      @ blocks_from_fee_check (Del params ''sign''))) d
                 = (fst (CheckAndInit ParseTime d vals key), None)
              \<and> (case snd (snd (CheckAndInit ParseTime d vals key)) of
                    None \<Rightarrow> n = 23
                  | Some e \<Rightarrow> n < 23
                      \<and> ((blocks_before_fee_check ParseTime (Del params ''sign'') s
                            @ blocks_from_fee_check (Del params ''sign'')) ! n)
                          (fst (CheckAndInit ParseTime d vals key)) = Inl e))"
    if "vals = Some params" "index params ''sign'' = s # rest" "s \<noteq> []"
       "s = hashSumHexBytes (Del params ''sign'') key" for params s rest
  proof -
    let ?bs = "blocks_before_fee_check ParseTime (Del params ''sign'') s
                 @ blocks_from_fee_check (Del params ''sign'')"
    have len: "length ?bs = 23"
      by (simp add: blocks_before_fee_check_def blocks_from_fee_check_def)
    have res: "fst (CheckAndInit ParseTime d vals key) = fst (run_blocks ?bs d)"
      "snd (snd (CheckAndInit ParseTime d vals key)) = snd (run_blocks ?bs d)"
      unfolding that(1) CheckAndInit_signed [OF that(2-4)] by (simp_all add: case_prod_beta)
    show ?thesis
      unfolding res using run_blocks_failing_block [of ?bs d] run_blocks_Signature [of ParseTime "Del params ''sign''" s d]
      unfolding len by blast
  qed
  ultimately show ?thesis by blast
qed

text \<open>
  A wrong signature leaves the fresh record as it is; a correct signature on a parameter
  set without \<open>notify_id\<close> leaves \<open>Signature\<close> assigned and \<open>FeeType\<close> untouched.
\<close>

theorem C7_error_record_amended_witness:
  "snd (snd (CheckAndInit ParseTime_ex (zero_NotifyURLData []) (Some [(''sign'', [''X''])]) ''secret''))
     = Some SignatureMismatch
   \<and> fst (CheckAndInit ParseTime_ex (zero_NotifyURLData []) (Some [(''sign'', [''X''])]) ''secret'')
     = zero_NotifyURLData []
   \<and> snd (snd (CheckAndInit ParseTime_ex (zero_NotifyURLData [])
          (Some [(''sign'', [''80353F06772F9B5C80204F40D0D34FDA''])]) ''secret''))
     = Some (MissingField ''notify_id'')
   \<and> FeeType (fst (CheckAndInit ParseTime_ex (zero_NotifyURLData [])
          (Some [(''sign'', [''80353F06772F9B5C80204F40D0D34FDA''])]) ''secret''))
     = 0
   \<and> Signature (fst (CheckAndInit ParseTime_ex (zero_NotifyURLData [])
          (Some [(''sign'', [''80353F06772F9B5C80204F40D0D34FDA''])]) ''secret''))
     = ''80353F06772F9B5C80204F40D0D34FDA''"
proof -
  let ?s = "''80353F06772F9B5C80204F40D0D34FDA''"
  let ?p = "[(''sign'', [?s])]"
  have e: "snd (snd (CheckAndInit ParseTime_ex (zero_NotifyURLData []) (Some [(''sign'', [''X''])]) ''secret''))
     = Some SignatureMismatch"
    by (simp add: check_eval sign_only_digest)
  have a: "fst (CheckAndInit ParseTime_ex (zero_NotifyURLData []) (Some [(''sign'', [''X''])]) ''secret'')
     = zero_NotifyURLData []"
    using C7_error_record_amended [of ParseTime_ex "zero_NotifyURLData []" "Some [(''sign'', [''X''])]" "''secret''"] e
    by simp
  have h: "Some ?p = Some ?p \<and> index ?p ''sign'' = ?s # [] \<and> ?s \<noteq> []
           \<and> ?s = hashSumHexBytes (Del ?p ''sign'') ''secret''"
    by (simp add: index_def Del_Cons Del_Nil sign_only_digest)
  have err: "snd (snd (CheckAndInit ParseTime_ex (zero_NotifyURLData []) (Some ?p) ''secret''))
     = Some (MissingField ''notify_id'')"
    by (simp add: sign_only_result)
  have z: "FeeType (zero_NotifyURLData t0) = 0" for t0 :: string
    by (simp add: zero_NotifyURLData_def)
  have b: "FeeType (fst (CheckAndInit ParseTime_ex (zero_NotifyURLData []) (Some ?p) ''secret'')) = 0
         \<and> Signature (fst (CheckAndInit ParseTime_ex (zero_NotifyURLData []) (Some ?p) ''secret'')) = ?s"
    using C7_error_record_amended [of ParseTime_ex "zero_NotifyURLData []" "Some ?p" "''secret''"] h err z
    by (metis option.distinct(1))
  from e a err b show ?thesis by blast
qed

text \<open>
  As stated, C7 fails on a correctly signed parameter set that lacks \<open>notify_id\<close>:
  the call returns an error after the five protocol fields have been assigned.
\<close>

theorem C7_error_record_counterexample:
  "CheckAndInit ParseTime_ex (zero_NotifyURLData []) (Some [(''sign'', [''80353F06772F9B5C80204F40D0D34FDA''])]) ''secret''
     = ((zero_NotifyURLData [])\<lparr>ServiceVersion := ''1.0'', Charset := ''GBK'',
          Signature := ''80353F06772F9B5C80204F40D0D34FDA'', SignMethod := ''MD5'', SignKeyIndex := 1\<rparr>,
        Some [], Some (MissingField ''notify_id''))
   \<and> fst (CheckAndInit ParseTime_ex (zero_NotifyURLData []) (Some [(''sign'', [''80353F06772F9B5C80204F40D0D34FDA''])]) ''secret'') \<noteq> (zero_NotifyURLData [])"
  by (simp add: CheckAndInit_def ConstantTimeCompare_def Del_Cons Del_Nil sign_only_digest
      blocks_eval)

text \<open>
  Claim C8. The map that \<open>CheckAndInit\<close> leaves is nil if it was nil; otherwise every
  key other than \<open>sign\<close> maps to what it mapped to before, and \<open>sign\<close> either maps to
  what it mapped to before or has been deleted.
\<close>

theorem C8_only_sign_deleted:
  "case fst (snd (CheckAndInit ParseTime data vals key)) of
     None \<Rightarrow> vals = None
   | Some params' \<Rightarrow>
       (\<exists>params. vals = Some params
          \<and> (\<forall>k. k \<noteq> ''sign'' \<longrightarrow> map_of params' k = map_of params k)
          \<and> (map_of params' ''sign'' = map_of params ''sign'' \<or> map_of params' ''sign'' = None))"
  by (auto simp: CheckAndInit_def Let_def map_of_Del split: option.splits prod.splits)

text \<open>
  After a call that deletes \<open>sign\<close>, the key \<open>a\<close> maps to what it mapped to.
\<close>

theorem C8_only_sign_deleted_witness:
  "case fst (snd (CheckAndInit ParseTime_ex (zero_NotifyURLData []) (Some [(''sign'', [''X'']), (''a'', [''1''])]) ''secret'')) of
     None \<Rightarrow> False
   | Some params' \<Rightarrow> map_of params' ''a'' = Some [''1'']"
  using C8_only_sign_deleted [where ParseTime = ParseTime_ex and data = "zero_NotifyURLData []"
      and vals = "Some [(''sign'', [''X'']), (''a'', [''1''])]" and key = "''secret''"]
  by (auto split: option.splits)

text \<open>
  Claim C9, amended. For the nil parameter set \<open>CheckAndInit\<close> fails with
  \<open>InvalidInput\<close>; for every non-nil parameter set, the empty map included, in which
  \<open>sign\<close> is missing or its first value is empty, it fails with \<open>MissingSignature\<close>. In
  both cases the record and the map are as they were given.
\<close>

theorem C9_preconditions_amended:
  "CheckAndInit ParseTime data None key = (data, None, Some InvalidInput) \<and>
   (index params ''sign'' = [] \<or> hd (index params ''sign'') = [] \<longrightarrow>
      CheckAndInit ParseTime data (Some params) key = (data, Some params, Some MissingSignature))"
  by (auto simp: CheckAndInit_def first_nonempty_def split: list.splits)

text \<open>
  The nil map, and a map whose \<open>sign\<close> has an empty first value.
\<close>

theorem C9_preconditions_amended_witness:
  "CheckAndInit ParseTime_ex (zero_NotifyURLData []) None ''secret'' = ((zero_NotifyURLData []), None, Some InvalidInput)
   \<and> CheckAndInit ParseTime_ex (zero_NotifyURLData []) (Some [(''sign'', [[]]), (''a'', [''1''])]) ''secret''
       = ((zero_NotifyURLData []), Some [(''sign'', [[]]), (''a'', [''1''])], Some MissingSignature)"
proof -
  have h: "index [(''sign'', [[]]), (''a'', [''1''])] ''sign'' = []
         \<or> hd (index [(''sign'', [[]]), (''a'', [''1''])] ''sign'') = []"
    by (simp add: index_def)
  show ?thesis
    using C9_preconditions_amended [of ParseTime_ex "(zero_NotifyURLData [])" "''secret''" "[(''sign'', [[]]), (''a'', [''1''])]"] h
    by simp
qed

text \<open>
  As stated, C9 fails on the empty map, which is not nil: the error is
  \<open>MissingSignature\<close>, not \<open>InvalidInput\<close>.
\<close>

theorem C9_preconditions_counterexample:
  "CheckAndInit ParseTime_ex (zero_NotifyURLData []) (Some []) ''secret'' = ((zero_NotifyURLData []), Some [], Some MissingSignature)
   \<and> snd (snd (CheckAndInit ParseTime_ex (zero_NotifyURLData []) (Some []) ''secret'')) \<noteq> Some InvalidInput"
  by (simp add: CheckAndInit_def first_nonempty_def index_def)

text \<open>
  Claim C10. For a parameter set whose only key is \<open>sign\<close>, the string that is hashed
  is \<open>key=<secretKey>\<close>, with no leading \<open>&\<close>, and the digest is the upper-cased
  hexadecimal MD5 of that string.
\<close>

theorem C10_sign_only:
  assumes "\<forall>k\<in>fst ` set params. k = ''sign''"
  shows "string1 (Del params ''sign'') key = ''key='' @ key \<and>
         hashSumHexBytes (Del params ''sign'') key = bytes_ToUpper (hex_Encode (md5_Sum (''key='' @ key)))"
  using Del_only_sign [OF assms] by (simp add: hashSumHexBytes_eq string1_def)

text \<open>
  The parameter set whose only key is \<open>sign\<close>, with the key \<open>secret\<close>.
\<close>

theorem C10_sign_only_witness:
  "string1 (Del [(''sign'', [''X''])] ''sign'') ''secret'' = ''key=secret''
   \<and> hashSumHexBytes (Del [(''sign'', [''X''])] ''sign'') ''secret''
       = bytes_ToUpper (hex_Encode (md5_Sum ''key=secret''))"
proof -
  have h: "\<forall>k\<in>fst ` set [(''sign'', [''X''])]. k = ''sign''"
    by simp
  show ?thesis
    using C10_sign_only [OF h, of "''secret''"] by simp
qed

end
